theory Spec2Isabelle
  imports Complex_Main
begin

section \<open>Inventory backend: stock mutation and the sales ledger\<close>

text \<open>
  The development follows \<^verbatim>\<open>src/index.js\<close> and \<^verbatim>\<open>src/unnamed/part_000\<close>, a revision
  of the same server that also holds the dashboard routes; the stock routes are the
  same in both. The handlers for the three categories are the routes \<^verbatim>\<open>POST /api/{shoes,bags,dresses}\<close>, \<^verbatim>\<open>.../:id/add\<close> and
  \<^verbatim>\<open>.../:id/deduct\<close>; the dashboard routes are \<^verbatim>\<open>GET /api/dashboard/stats\<close> and
  \<^verbatim>\<open>GET /api/dashboard/sales-analytics\<close>.

  Conventions of the model.
  \<^item> A JavaScript number is an exact number: \<open>int\<close> for stocks and quantities,
    \<open>rat\<close> for prices and totals. This is what the double arithmetic of the runtime
    computes on integers of magnitude below \<open>2 ^ 53\<close>; rounding is not modelled, and
    neither are fractions and infinities as quantities.
  \<^item> A request's \<^verbatim>\<open>quantity\<close> is a JSON value of the body. The values modelled are
    the absent field, \<^verbatim>\<open>null\<close>, the booleans, the (integer) numbers and the strings of
    ASCII characters; arrays and objects are outside the model.
  \<^item> Where a request leads the code to a number the model does not hold, the model
    answers \<open>Unmodelled\<close>, which is no reply of the code.
  \<^item> A collection is a finite map from document ids to documents; the id a route is
    called with is a well-formed ObjectId. A stored product has a name, a numeric stock
    and a numeric price.
  \<^item> The ledger is the list of the documents of the \<^verbatim>\<open>Sale\<close> collection in insertion
    order (the field \<open>ledger\<close> of the store).
  \<^item> Every write to the store succeeds (a failing store is the \<^verbatim>\<open>catch\<close> branch, status
    500, of each handler, and no claim is about it).
  \<^item> The host's time zone is a parameter: the offset from UTC in force at a time, which
    may change (daylight saving time).
\<close>

subsection \<open>Documents\<close>

type_synonym oid = nat

datatype category = Shoes | Bags | Dresses

datatype sale_type = Add | Deduct

text \<open>\<^verbatim>\<open>baseSchema\<close>: the fields the stock routes read and write.\<close>

record product =
  name :: string
  stock :: int
  price :: rat

text \<open>
  \<^verbatim>\<open>salesSchema\<close>. \<^verbatim>\<open>name\<close> and \<^verbatim>\<open>price\<close> have no default, so a document written
  without them has none (\<open>None\<close>). \<^verbatim>\<open>date\<close> is a time value, milliseconds since the
  epoch.
\<close>

record sale =
  productId :: oid
  category :: category
  sale_name :: "string option"
  quantity :: int
  sale_price :: "rat option"
  total :: rat
  type :: sale_type
  date :: int

record store =
  products :: "category \<Rightarrow> oid \<rightharpoonup> product"
  ledger :: "sale list"

text \<open>\<^verbatim>\<open>Model.findById(id)\<close> and \<^verbatim>\<open>doc.save()\<close> of a document found under \<open>i\<close>.\<close>

definition findById :: "store \<Rightarrow> category \<Rightarrow> oid \<Rightarrow> product option" where
  "findById st c i = products st c i"

definition save :: "category \<Rightarrow> oid \<Rightarrow> product \<Rightarrow> store \<Rightarrow> store" where
  "save c i p st = st\<lparr>products := (products st)(c := (products st c)(i \<mapsto> p))\<rparr>"

text \<open>\<^verbatim>\<open>sale.save()\<close> and \<^verbatim>\<open>Sale.create\<close>: one more document in the ledger.\<close>

definition save_sale :: "sale \<Rightarrow> store \<Rightarrow> store" where
  "save_sale s st = st\<lparr>ledger := ledger st @ [s]\<rparr>"

subsection \<open>JavaScript values of a request body\<close>

datatype jsval = JUndefined | JNull | JBool bool | JNum int | JStr string

text \<open>
  The result of a conversion to a number: \<open>NaN\<close>, an integer, or \<open>Other\<close>, a result the
  model does not work out: the number of a string that is no decimal integer numeral
  (which may be \<open>NaN\<close>, a fraction, an infinity, or a number in another notation), and
  what \<^verbatim>\<open>parseInt\<close> reads of the exponent notation of a number with more than one digit.
\<close>

datatype number = NaN | Num int | Other

subsubsection \<open>Strings and numbers\<close>

text \<open>The white space of the language among the ASCII characters, and the digits.\<close>

definition is_space :: "char \<Rightarrow> bool" where
  "is_space c = ((9 \<le> (of_char c :: nat) \<and> (of_char c :: nat) \<le> 13) \<or> (of_char c :: nat) = 32)"

definition is_digit :: "char \<Rightarrow> bool" where
  "is_digit c = (48 \<le> (of_char c :: nat) \<and> (of_char c :: nat) \<le> 57)"

definition digits_value :: "string \<Rightarrow> nat" where
  "digits_value s = foldl (\<lambda>a c. 10 * a + (of_char c - 48)) 0 s"

text \<open>
  The number of a string, where the string, white space at both ends aside, is empty
  (the number 0) or a decimal integer numeral with or without sign.
\<close>

definition signed_digits :: "string \<Rightarrow> int option" where
  "signed_digits t =
     (case t of
        [] \<Rightarrow> None
      | c # r \<Rightarrow>
          if c = CHR ''-'' then (if r \<noteq> [] \<and> list_all is_digit r then Some (- int (digits_value r)) else None)
          else if c = CHR ''+'' then (if r \<noteq> [] \<and> list_all is_digit r then Some (int (digits_value r)) else None)
          else if list_all is_digit t then Some (int (digits_value t)) else None)"

definition decimal_integer :: "string \<Rightarrow> int option" where
  "decimal_integer s =
     (let t = dropWhile is_space (rev (dropWhile is_space (rev s)))
      in if t = [] then Some 0 else signed_digits t)"

text \<open>
  The string of an integer below \<open>10 ^ 21\<close> in magnitude: its decimal digits, after a
  minus sign when it is negative.
\<close>

function digits_of :: "int \<Rightarrow> string" where
  "digits_of n =
     (if n < 10 then [char_of (48 + n)] else digits_of (n div 10) @ [char_of (48 + n mod 10)])"
  by pat_completeness auto

termination
  by (relation "measure nat") auto

declare digits_of.simps [simp del]

definition ToString :: "int \<Rightarrow> string" where
  "ToString n = (if n < 0 then CHR ''-'' # digits_of (- n) else digits_of n)"

text \<open>
  From \<open>10 ^ 21\<close> on the string of a number is in exponent notation: the number
  \<open>d * 10 ^ k\<close> with one digit \<open>d\<close> is written \<^verbatim>\<open>de+k\<close>, as in \<^verbatim>\<open>1e+21\<close>. The first
  digit of a positive number, and the power of ten it stands at:
\<close>

function leading_digit :: "int \<Rightarrow> int" where
  "leading_digit n = (if n < 10 then n else leading_digit (n div 10))"
  by pat_completeness auto

termination
  by (relation "measure nat") auto

declare leading_digit.simps [simp del]

function leading_power :: "int \<Rightarrow> int" where
  "leading_power n = (if n < 10 then 1 else 10 * leading_power (n div 10))"
  by pat_completeness auto

termination
  by (relation "measure nat") auto

declare leading_power.simps [simp del]

subsubsection \<open>Conversions\<close>

text \<open>\<open>ToNumber\<close> and \<open>ToBoolean\<close> of a body value.\<close>

fun ToNumber :: "jsval \<Rightarrow> number" where
  "ToNumber JUndefined = NaN"
| "ToNumber JNull = Num 0"
| "ToNumber (JBool b) = Num (if b then 1 else 0)"
| "ToNumber (JNum n) = Num n"
| "ToNumber (JStr s) = (case decimal_integer s of None \<Rightarrow> Other | Some n \<Rightarrow> Num n)"

fun ToBoolean :: "jsval \<Rightarrow> bool" where
  "ToBoolean JUndefined = False"
| "ToBoolean JNull = False"
| "ToBoolean (JBool b) = b"
| "ToBoolean (JNum n) = (n \<noteq> 0)"
| "ToBoolean (JStr s) = (s \<noteq> [])"

text \<open>\<^verbatim>\<open>x <= 0\<close> for a number \<open>x\<close>: a comparison with \<open>NaN\<close> is false.\<close>

fun le_zero :: "number \<Rightarrow> bool" where
  "le_zero (Num n) = (n \<le> 0)"
| "le_zero _ = False"

text \<open>
  \<^verbatim>\<open>parseInt(v, 10)\<close>. The value is turned into a string first, so \<^verbatim>\<open>undefined\<close>,
  \<^verbatim>\<open>null\<close> and the booleans give \<open>NaN\<close>, and an integer below \<open>10 ^ 21\<close> in magnitude
  gives itself. Of a string, \<^verbatim>\<open>parseInt\<close> reads the white space at the beginning, a
  sign, and then digits as far as they go; without a digit the result is \<open>NaN\<close>. So of
  a number \<open>d * 10 ^ k\<close> from \<open>10 ^ 21\<close> on, with one digit \<open>d\<close>, it reads \<open>d\<close>, with the
  sign; the other numbers of that size are not worked out.
\<close>

definition parse_int_string :: "string \<Rightarrow> number" where
  "parse_int_string s =
     (let t = dropWhile is_space s;
          negative = (t \<noteq> [] \<and> hd t = CHR ''-'');
          u = (if t \<noteq> [] \<and> (hd t = CHR ''-'' \<or> hd t = CHR ''+'') then tl t else t);
          ds = takeWhile is_digit u
      in if ds = [] then NaN
         else Num (if negative then - int (digits_value ds) else int (digits_value ds)))"

fun parseInt :: "jsval \<Rightarrow> number" where
  "parseInt (JNum n) =
     (if \<bar>n\<bar> < 1000000000000000000000 then Num n
      else if leading_digit \<bar>n\<bar> * leading_power \<bar>n\<bar> = \<bar>n\<bar>
      then Num (sgn n * leading_digit \<bar>n\<bar>)
      else Other)"
| "parseInt (JStr s) = parse_int_string s"
| "parseInt _ = NaN"

text \<open>\<^verbatim>\<open>!x\<close> is false for a number \<open>x\<close> other than 0 and \<open>NaN\<close>.\<close>

fun truthy_number :: "number \<Rightarrow> bool" where
  "truthy_number (Num n) = (n \<noteq> 0)"
| "truthy_number _ = False"

text \<open>
  \<^verbatim>\<open>stock += quantity\<close>, the new value as the schema stores it. With a string, \<^verbatim>\<open>+\<close>
  appends it to the string of the stock, and the schema turns the result into a number
  again; without one, \<^verbatim>\<open>+\<close> adds.
\<close>

definition plus_assign :: "int \<Rightarrow> jsval \<Rightarrow> number" where
  "plus_assign s v =
     (case v of
        JStr str \<Rightarrow>
          if \<bar>s\<bar> < 1000000000000000000000
          then (case decimal_integer (ToString s @ str) of None \<Rightarrow> Other | Some m \<Rightarrow> Num m)
          else Other
      | _ \<Rightarrow> (case ToNumber v of Num n \<Rightarrow> Num (s + n) | x \<Rightarrow> x))"

subsection \<open>Replies\<close>

text \<open>
  The error replies of the stock routes: 404 \<^verbatim>\<open>"... not found"\<close>, 400
  \<^verbatim>\<open>"Invalid quantity"\<close>, 400 \<^verbatim>\<open>"Not enough stock"\<close>, and 500 from the \<^verbatim>\<open>catch\<close>
  branch. \<open>Unmodelled\<close> is none of them: it marks a request the model does not follow.
\<close>

datatype error = NotFound | InvalidQuantity | InsufficientStock | ServerError | Unmodelled

text \<open>A success replies with the document, or with \<^verbatim>\<open>{ stock }\<close> alone.\<close>

datatype reply = Doc product | StockOnly int

type_synonym result = "(error + reply) \<times> store"

subsection \<open>Adding stock\<close>

text \<open>
  \<^verbatim>\<open>POST /api/shoes/:id/add\<close>: the quantity is checked as it arrives
  (\<^verbatim>\<open>!quantity || quantity <= 0\<close>), then the shoe is looked up, then
  \<^verbatim>\<open>shoe.stock += quantity\<close>, and the ledger entry has \<^verbatim>\<open>quantity\<close>, which the schema
  stores as a number (\<^verbatim>\<open>true\<close> as 1, a string as the number it names), and
  \<^verbatim>\<open>total: shoe.price * quantity\<close>. A stock that became \<open>NaN\<close> is refused by the
  schema, which ends in the \<^verbatim>\<open>catch\<close> branch.
\<close>

definition shoes_add :: "oid \<Rightarrow> int \<Rightarrow> jsval \<Rightarrow> store \<Rightarrow> result" where
  "shoes_add i now req_quantity st =
     (if ToNumber req_quantity = Other then (Inl Unmodelled, st)
      else if \<not> ToBoolean req_quantity \<or> le_zero (ToNumber req_quantity)
      then (Inl InvalidQuantity, st)
      else case findById st Shoes i of
        None \<Rightarrow> (Inl NotFound, st)
      | Some shoe \<Rightarrow>
          (case plus_assign (stock shoe) req_quantity of
            Other \<Rightarrow> (Inl Unmodelled, st)
          | NaN \<Rightarrow> (Inl ServerError, st)
          | Num new_stock \<Rightarrow>
              (case ToNumber req_quantity of
                Num q \<Rightarrow>
                  let shoe' = shoe\<lparr>stock := new_stock\<rparr>;
                      st' = save Shoes i shoe' st;
                      entry = \<lparr>productId = i, category = Shoes, sale_name = Some (name shoe'),
                               quantity = q, sale_price = Some (price shoe'),
                               total = price shoe' * of_int q, type = Add, date = now\<rparr>
                  in (Inr (Doc shoe'), save_sale entry st')
              | _ \<Rightarrow> (Inl ServerError, st))))"

text \<open>
  \<^verbatim>\<open>POST /api/bags/:id/add\<close> and \<^verbatim>\<open>POST /api/dresses/:id/add\<close>: the product is looked
  up first, the quantity is \<^verbatim>\<open>parseInt(req.body.quantity, 10)\<close>, the ledger entry has
  \<^verbatim>\<open>total: 0\<close>, and the reply is \<^verbatim>\<open>{ stock }\<close>.
\<close>

definition bags_dresses_add :: "category \<Rightarrow> oid \<Rightarrow> int \<Rightarrow> jsval \<Rightarrow> store \<Rightarrow> result" where
  "bags_dresses_add c i now req_quantity st =
     (case findById st c i of
        None \<Rightarrow> (Inl NotFound, st)
      | Some bag \<Rightarrow>
          (let parsed = parseInt req_quantity in
           (if parsed = Other then (Inl Unmodelled, st)
            else if \<not> truthy_number parsed \<or> le_zero parsed then (Inl InvalidQuantity, st)
            else (case parsed of
              Num q \<Rightarrow>
                (let bag' = bag\<lparr>stock := stock bag + q\<rparr>;
                     st' = save c i bag' st;
                     entry = \<lparr>productId = i, category = c, sale_name = Some (name bag'),
                              quantity = q, sale_price = Some (price bag'),
                              total = 0, type = Add, date = now\<rparr>
                 in (Inr (StockOnly (stock bag')), save_sale entry st'))
            | _ \<Rightarrow> (Inl ServerError, st)))))"

definition add_stock :: "category \<Rightarrow> oid \<Rightarrow> int \<Rightarrow> jsval \<Rightarrow> store \<Rightarrow> result" where
  "add_stock c i now req_quantity st =
     (case c of Shoes \<Rightarrow> shoes_add i now req_quantity st
      | Bags \<Rightarrow> bags_dresses_add Bags i now req_quantity st
      | Dresses \<Rightarrow> bags_dresses_add Dresses i now req_quantity st)"

subsection \<open>Deducting stock\<close>

text \<open>
  \<^verbatim>\<open>POST /api/{shoes,bags,dresses}/:id/deduct\<close>, the same handler three times: the
  quantity is checked as it arrives, then the product is looked up, then
  \<^verbatim>\<open>stock < quantity\<close> is refused, then \<^verbatim>\<open>stock -= quantity\<close> and the ledger entry has
  \<^verbatim>\<open>total: price * quantity\<close>. The comparison and the subtraction take the number of
  the quantity. The schema stores the quantity as a number (\<^verbatim>\<open>true\<close> as 1, a string as
  the number it names).
\<close>

definition deduct_stock :: "category \<Rightarrow> oid \<Rightarrow> int \<Rightarrow> jsval \<Rightarrow> store \<Rightarrow> result" where
  "deduct_stock c i now req_quantity st =
     (if ToNumber req_quantity = Other then (Inl Unmodelled, st)
      else if \<not> ToBoolean req_quantity \<or> le_zero (ToNumber req_quantity)
      then (Inl InvalidQuantity, st)
      else case findById st c i of
        None \<Rightarrow> (Inl NotFound, st)
      | Some p \<Rightarrow>
          (case ToNumber req_quantity of
            Num q \<Rightarrow>
              if stock p < q then (Inl InsufficientStock, st)
              else
                let p' = p\<lparr>stock := stock p - q\<rparr>;
                    st' = save c i p' st;
                    entry = \<lparr>productId = i, category = c, sale_name = Some (name p'),
                             quantity = q, sale_price = Some (price p'),
                             total = price p' * of_int q, type = Deduct, date = now\<rparr>
                in (Inr (Doc p'), save_sale entry st')
          | _ \<Rightarrow> (Inl ServerError, st)))"

subsection \<open>Creating a product\<close>

text \<open>
  The fields of the creation body the ledger entry is built from. The new document's id
  is the ObjectId generated for it.
\<close>

record new_product =
  body_name :: string
  body_stock :: int
  body_price :: rat

text \<open>
  \<^verbatim>\<open>POST /api/shoes\<close>: the entry is written with \<^verbatim>\<open>productId\<close>, \<^verbatim>\<open>category\<close>,
  \<^verbatim>\<open>quantity\<close>, \<^verbatim>\<open>total\<close>, \<^verbatim>\<open>type\<close> and \<^verbatim>\<open>date\<close> (\<^verbatim>\<open>revenue\<close> and \<^verbatim>\<open>action\<close> are not
  fields of the schema); it is given neither \<^verbatim>\<open>name\<close> nor \<^verbatim>\<open>price\<close>.
\<close>

definition shoes_create :: "oid \<Rightarrow> int \<Rightarrow> new_product \<Rightarrow> store \<Rightarrow> product \<times> store" where
  "shoes_create i now body st =
     (let shoe = \<lparr>name = body_name body, stock = body_stock body, price = body_price body\<rparr>;
          st' = save Shoes i shoe st;
          entry = \<lparr>productId = i, category = Shoes, sale_name = None,
                   quantity = body_stock body, sale_price = None,
                   total = body_price body * of_int (body_stock body),
                   type = Add, date = now\<rparr>
      in (shoe, save_sale entry st'))"

text \<open>
  \<^verbatim>\<open>POST /api/bags\<close> and \<^verbatim>\<open>POST /api/dresses\<close>: the entry has \<^verbatim>\<open>name: bag.name\<close> and
  \<^verbatim>\<open>price: price\<close>; its date is the schema's default, the time of the write.
\<close>

definition bags_dresses_create ::
  "category \<Rightarrow> oid \<Rightarrow> int \<Rightarrow> new_product \<Rightarrow> store \<Rightarrow> product \<times> store" where
  "bags_dresses_create c i now body st =
     (let bag = \<lparr>name = body_name body, stock = body_stock body, price = body_price body\<rparr>;
          st' = save c i bag st;
          entry = \<lparr>productId = i, category = c, sale_name = Some (name bag),
                   quantity = body_stock body, sale_price = Some (body_price body),
                   total = body_price body * of_int (body_stock body),
                   type = Add, date = now\<rparr>
      in (bag, save_sale entry st'))"

definition create_product ::
  "category \<Rightarrow> oid \<Rightarrow> int \<Rightarrow> new_product \<Rightarrow> store \<Rightarrow> product \<times> store" where
  "create_product c i now body st =
     (case c of Shoes \<Rightarrow> shoes_create i now body st
      | Bags \<Rightarrow> bags_dresses_create Bags i now body st
      | Dresses \<Rightarrow> bags_dresses_create Dresses i now body st)"

subsection \<open>Sequences of stock requests on one product\<close>

datatype stock_op = AddStock jsval | DeductStock jsval

definition apply_op :: "category \<Rightarrow> oid \<Rightarrow> int \<Rightarrow> stock_op \<Rightarrow> store \<Rightarrow> result" where
  "apply_op c i now op st =
     (case op of AddStock q \<Rightarrow> add_stock c i now q st
      | DeductStock q \<Rightarrow> deduct_stock c i now q st)"

text \<open>
  A sequence of requests, each with the time it is served at, all of which succeed:
  \<open>None\<close> as soon as one is answered with an error.
\<close>

fun run_ops :: "category \<Rightarrow> oid \<Rightarrow> (int \<times> stock_op) list \<Rightarrow> store \<Rightarrow> store option" where
  "run_ops c i [] st = Some st"
| "run_ops c i ((now, op) # ops) st =
     (case apply_op c i now op st of
        (Inl e, st') \<Rightarrow> None
      | (Inr r, st') \<Rightarrow> run_ops c i ops st')"

text \<open>The number a request's quantity stands for.\<close>

definition amount :: "jsval \<Rightarrow> int" where
  "amount q = (case ToNumber q of Num n \<Rightarrow> n | _ \<Rightarrow> 0)"

fun added :: "(int \<times> stock_op) list \<Rightarrow> int" where
  "added [] = 0"
| "added ((now, AddStock q) # ops) = amount q + added ops"
| "added ((now, DeductStock q) # ops) = added ops"

fun deducted :: "(int \<times> stock_op) list \<Rightarrow> int" where
  "deducted [] = 0"
| "deducted ((now, AddStock q) # ops) = deducted ops"
| "deducted ((now, DeductStock q) # ops) = amount q + deducted ops"

section \<open>Dates\<close>

text \<open>
  A \<^verbatim>\<open>Date\<close> is its time value, milliseconds since the epoch. The functions below are
  the day and year arithmetic of the language standard.
\<close>

definition msPerDay :: int where
  "msPerDay = 86400000"

definition Day :: "int \<Rightarrow> int" where
  "Day t = t div msPerDay"

definition TimeWithinDay :: "int \<Rightarrow> int" where
  "TimeWithinDay t = t mod msPerDay"

definition DaysInYear :: "int \<Rightarrow> int" where
  "DaysInYear y =
     (if y mod 4 \<noteq> 0 then 365 else if y mod 100 \<noteq> 0 then 366
      else if y mod 400 \<noteq> 0 then 365 else 366)"

definition DayFromYear :: "int \<Rightarrow> int" where
  "DayFromYear y =
     365 * (y - 1970) + (y - 1969) div 4 - (y - 1901) div 100 + (y - 1601) div 400"

text \<open>
  The year of a day number: the year \<open>y\<close> with
  \<open>DayFromYear y \<le> d < DayFromYear (y + 1)\<close>, found from an estimate that is off by one
  at most.
\<close>

definition YearFromDay :: "int \<Rightarrow> int" where
  "YearFromDay d =
     (let g = 1970 + (400 * d) div 146097 in
      if d < DayFromYear g then g - 1
      else if DayFromYear (g + 1) \<le> d then g + 1
      else g)"

definition YearFromTime :: "int \<Rightarrow> int" where
  "YearFromTime t = YearFromDay (Day t)"

definition InLeapYear :: "int \<Rightarrow> int" where
  "InLeapYear t = (if DaysInYear (YearFromTime t) = 366 then 1 else 0)"

definition DayWithinYear :: "int \<Rightarrow> int" where
  "DayWithinYear t = Day t - DayFromYear (YearFromTime t)"

text \<open>The days of a year before month \<open>m\<close> (0 to 11), \<open>leap\<close> being 0 or 1.\<close>

definition month_start :: "int \<Rightarrow> int \<Rightarrow> int" where
  "month_start leap m =
     (if m = 0 then 0 else if m = 1 then 31 else if m = 2 then 59 + leap
      else if m = 3 then 90 + leap else if m = 4 then 120 + leap
      else if m = 5 then 151 + leap else if m = 6 then 181 + leap
      else if m = 7 then 212 + leap else if m = 8 then 243 + leap
      else if m = 9 then 273 + leap else if m = 10 then 304 + leap
      else 334 + leap)"

definition MonthFromTime :: "int \<Rightarrow> int" where
  "MonthFromTime t =
     (let d = DayWithinYear t; leap = InLeapYear t in
      if d < 31 then 0 else if d < 59 + leap then 1 else if d < 90 + leap then 2
      else if d < 120 + leap then 3 else if d < 151 + leap then 4
      else if d < 181 + leap then 5 else if d < 212 + leap then 6
      else if d < 243 + leap then 7 else if d < 273 + leap then 8
      else if d < 304 + leap then 9 else if d < 334 + leap then 10
      else 11)"

definition DateFromTime :: "int \<Rightarrow> int" where
  "DateFromTime t = DayWithinYear t - month_start (InLeapYear t) (MonthFromTime t) + 1"

text \<open>\<open>MakeDay\<close>: a month outside 0 to 11 carries into the year, a date outside the
  month carries into the days.\<close>

definition MakeDay :: "int \<Rightarrow> int \<Rightarrow> int \<Rightarrow> int" where
  "MakeDay year month dt =
     (let ym = year + month div 12; mn = month mod 12 in
      DayFromYear ym + month_start (if DaysInYear ym = 366 then 1 else 0) mn + dt - 1)"

definition MakeDate :: "int \<Rightarrow> int \<Rightarrow> int" where
  "MakeDate day time = day * msPerDay + time"

text \<open>
  The time zone of the host: the offset of local time from UTC (in milliseconds) at
  first, and the clock changes that follow, each with the time at which it takes effect
  and the offset from then on, in ascending order of time.
\<close>

datatype zone = Zone int "(int \<times> int) list"

text \<open>The offset in force at the time \<open>t\<close>.\<close>

fun offset_from :: "int \<Rightarrow> (int \<times> int) list \<Rightarrow> int \<Rightarrow> int" where
  "offset_from a [] t = a"
| "offset_from a ((T, b) # cs) t = (if t < T then a else offset_from b cs t)"

fun offset_at :: "zone \<Rightarrow> int \<Rightarrow> int" where
  "offset_at (Zone a cs) t = offset_from a cs t"

text \<open>
  The offset by which the local time \<open>l\<close> is turned into a time: that of the first
  stretch between clock changes in which some time reads \<open>l\<close> on the local clock; and
  for an \<open>l\<close> that a clock change skips, the offset before the change.
\<close>

fun local_offset_from :: "int \<Rightarrow> (int \<times> int) list \<Rightarrow> int \<Rightarrow> int" where
  "local_offset_from a [] l = a"
| "local_offset_from a ((T, b) # cs) l =
     (if l - a < T then a
      else if T \<le> l - b then local_offset_from b cs l
      else a)"

fun offset_of_local :: "zone \<Rightarrow> int \<Rightarrow> int" where
  "offset_of_local (Zone a cs) l = local_offset_from a cs l"

definition LocalTime :: "zone \<Rightarrow> int \<Rightarrow> int" where
  "LocalTime z t = t + offset_at z t"

definition UTC :: "zone \<Rightarrow> int \<Rightarrow> int" where
  "UTC z l = l - offset_of_local z l"

text \<open>A zone without clock changes, and the zone \<^verbatim>\<open>America/New_York\<close> through 2023:
  five hours behind UTC, four hours from 12 March, 07:00 UTC, to 5 November, 06:00 UTC.\<close>

definition fixed_zone :: "int \<Rightarrow> zone" where
  "fixed_zone c = Zone c []"

definition new_york_2023 :: zone where
  "new_york_2023 =
     Zone (- 18000000) [(1678604400000, - 14400000), (1699164000000, - 18000000)]"

text \<open>The methods of \<^verbatim>\<open>Date\<close> the routes call; the setters return the new time value.\<close>

definition getDate :: "zone \<Rightarrow> int \<Rightarrow> int" where
  "getDate z t = DateFromTime (LocalTime z t)"

definition getMonth :: "zone \<Rightarrow> int \<Rightarrow> int" where
  "getMonth z t = MonthFromTime (LocalTime z t)"

definition getFullYear :: "zone \<Rightarrow> int \<Rightarrow> int" where
  "getFullYear z t = YearFromTime (LocalTime z t)"

definition setDate :: "zone \<Rightarrow> int \<Rightarrow> int \<Rightarrow> int" where
  "setDate z t dt =
     (let lt = LocalTime z t in
      UTC z (MakeDate (MakeDay (YearFromTime lt) (MonthFromTime lt) dt) (TimeWithinDay lt)))"

definition setMonth :: "zone \<Rightarrow> int \<Rightarrow> int \<Rightarrow> int" where
  "setMonth z t month =
     (let lt = LocalTime z t in
      UTC z (MakeDate (MakeDay (YearFromTime lt) month (DateFromTime lt)) (TimeWithinDay lt)))"

definition setFullYear :: "zone \<Rightarrow> int \<Rightarrow> int \<Rightarrow> int" where
  "setFullYear z t year =
     (let lt = LocalTime z t in
      UTC z (MakeDate (MakeDay year (MonthFromTime lt) (DateFromTime lt)) (TimeWithinDay lt)))"

text \<open>
  \<^verbatim>\<open>d.toISOString().split('T')[0]\<close> is the UTC calendar date of \<open>d\<close> written
  \<^verbatim>\<open>YYYY-MM-DD\<close>. The string is represented by the day number it denotes, so two such
  strings are equal exactly when the day numbers are, and the next calendar day is the
  day number plus one.
\<close>

definition isoDate :: "int \<Rightarrow> int" where
  "isoDate t = Day t"

section \<open>The dashboard\<close>

text \<open>
  The dashboard routes compute over \<^verbatim>\<open>sales\<close>, the array the ledger query returns, and
  \<^verbatim>\<open>salesData\<close>, its entries of type \<^verbatim>\<open>deduct\<close>. \<^verbatim>\<open>reduce\<close> with a start value is a
  left fold.
\<close>

definition salesData_of :: "sale list \<Rightarrow> sale list" where
  "salesData_of sales = filter (\<lambda>s. type s = Deduct) sales"

definition sum_quantity :: "sale list \<Rightarrow> int" where
  "sum_quantity xs = foldl (\<lambda>sum s. sum + quantity s) 0 xs"

definition sum_total :: "sale list \<Rightarrow> rat" where
  "sum_total xs = foldl (\<lambda>sum s. sum + total s) 0 xs"

subsection \<open>Sales trend\<close>

record trend_point =
  trend_date :: int
  trend_sales :: int
  trend_revenue :: rat

text \<open>One pass of the loop body of the sales trend, for the loop variable \<open>i\<close>.\<close>

definition trend_point_at :: "zone \<Rightarrow> int \<Rightarrow> sale list \<Rightarrow> int \<Rightarrow> trend_point" where
  "trend_point_at z today salesData i =
     (let d = setDate z today (getDate z today - i);
          dateStr = isoDate d;
          daySales = filter (\<lambda>s. isoDate (date s) = dateStr) salesData
      in \<lparr>trend_date = dateStr, trend_sales = sum_quantity daySales,
          trend_revenue = sum_total daySales\<rparr>)"

text \<open>\<^verbatim>\<open>for (let i = 6; i >= 0; i--)\<close>, pushing one point per pass.\<close>

fun trend_loop :: "zone \<Rightarrow> int \<Rightarrow> sale list \<Rightarrow> nat \<Rightarrow> trend_point list" where
  "trend_loop z today salesData 0 = [trend_point_at z today salesData 0]"
| "trend_loop z today salesData (Suc i) =
     trend_point_at z today salesData (int (Suc i)) # trend_loop z today salesData i"

definition salesTrend :: "zone \<Rightarrow> int \<Rightarrow> sale list \<Rightarrow> trend_point list" where
  "salesTrend z today sales = trend_loop z today (salesData_of sales) 6"

subsection \<open>Top selling products\<close>

text \<open>
  \<^verbatim>\<open>productSales\<close> is a plain object used as a dictionary. Its own properties are kept
  in creation order; a write to an existing key keeps the key's place.
  \<^verbatim>\<open>Object.entries\<close> lists the keys that are array indices first, in ascending numeric
  order, and then the other keys in creation order. Properties inherited from
  \<^verbatim>\<open>Object.prototype\<close> are not modelled: \<open>Object_prototype_keys\<close> lists the names for
  which a read of the empty object finds one.
\<close>

type_synonym 'v js_object = "(string \<times> 'v) list"

definition obj_get :: "'v js_object \<Rightarrow> string \<Rightarrow> 'v option" where
  "obj_get obj k = map_of obj k"

fun obj_set :: "'v js_object \<Rightarrow> string \<Rightarrow> 'v \<Rightarrow> 'v js_object" where
  "obj_set [] k v = [(k, v)]"
| "obj_set ((k', v') # obj) k v =
     (if k' = k then (k, v) # obj else (k', v') # obj_set obj k v)"

text \<open>An array index: the decimal numeral, without leading zeros, of a number up to
  \<open>2 ^ 32 - 2\<close>.\<close>

definition is_array_index :: "string \<Rightarrow> bool" where
  "is_array_index s =
     (s \<noteq> [] \<and> list_all is_digit s \<and> (length s = 1 \<or> hd s \<noteq> CHR ''0'')
      \<and> digits_value s \<le> 4294967294)"



text \<open>The property key an entry's name is used as: a missing name is looked up as
  the string \<^verbatim>\<open>undefined\<close>.\<close>

definition name_key :: "string option \<Rightarrow> string" where
  "name_key n = (case n of None \<Rightarrow> ''undefined'' | Some nm \<Rightarrow> nm)"

text \<open>\<^verbatim>\<open>productSales[sale.name] = (productSales[sale.name] || 0) + sale.quantity\<close>\<close>

definition or_zero :: "int option \<Rightarrow> int" where
  "or_zero v = (case v of None \<Rightarrow> 0 | Some n \<Rightarrow> if n = 0 then 0 else n)"

definition count_sale :: "int js_object \<Rightarrow> sale \<Rightarrow> int js_object" where
  "count_sale productSales s =
     obj_set productSales (name_key (sale_name s))
       (or_zero (obj_get productSales (name_key (sale_name s))) + quantity s)"





subsection \<open>Sales analytics\<close>

text \<open>
  The keys of \<^verbatim>\<open>groupedSales\<close> are strings of three shapes, represented by what they
  name: the ISO date of a day, \<^verbatim>\<open>Week n\<close>, and the short name of month \<open>m\<close> (0 to 11)
  in the default locale.
\<close>

datatype bucket_key = DayKey int | WeekKey int | MonthKey int

record bucket =
  bucket_sales :: int
  bucket_revenue :: rat

record analytics =
  period :: string
  startDate :: int
  endDate :: int
  data :: "bucket_key \<rightharpoonup> bucket"

text \<open>The \<^verbatim>\<open>switch\<close> on the period.\<close>

definition start_date :: "zone \<Rightarrow> string \<Rightarrow> int \<Rightarrow> int" where
  "start_date z p now =
     (if p = ''week'' then setDate z now (getDate z now - 7)
      else if p = ''month'' then setMonth z now (getMonth z now - 1)
      else if p = ''year'' then setFullYear z now (getFullYear z now - 1)
      else setMonth z now (getMonth z now - 1))"

definition sale_key :: "zone \<Rightarrow> string \<Rightarrow> sale \<Rightarrow> bucket_key" where
  "sale_key z p s =
     (if p = ''week'' then DayKey (isoDate (date s))
      else if p = ''month'' then WeekKey \<lceil>rat_of_int (getDate z (date s)) / 7\<rceil>
      else MonthKey (getMonth z (date s)))"

definition group_sale :: "zone \<Rightarrow> string \<Rightarrow> (bucket_key \<rightharpoonup> bucket) \<Rightarrow> sale \<Rightarrow> (bucket_key \<rightharpoonup> bucket)" where
  "group_sale z p groupedSales s =
     (let key = sale_key z p s;
          b = (case groupedSales key of None \<Rightarrow> \<lparr>bucket_sales = 0, bucket_revenue = 0\<rparr>
               | Some b \<Rightarrow> b)
      in groupedSales(key \<mapsto>
           \<lparr>bucket_sales = bucket_sales b + quantity s,
            bucket_revenue = bucket_revenue b + total s\<rparr>))"

text \<open>
  \<^verbatim>\<open>GET /api/dashboard/sales-analytics\<close>: \<open>query_period\<close> is the query parameter, absent or
  a string; the query returns the entries of type \<^verbatim>\<open>deduct\<close> from the start date on,
  by ascending date.
\<close>

definition salesAnalytics :: "zone \<Rightarrow> string option \<Rightarrow> int \<Rightarrow> sale list \<Rightarrow> analytics" where
  "salesAnalytics z query_period now entries =
     (let p = (case query_period of None \<Rightarrow> ''month'' | Some q \<Rightarrow> q);
          start = start_date z p now;
          found = sort_key date (filter (\<lambda>s. start \<le> date s \<and> type s = Deduct) entries);
          groupedSales = foldl (group_sale z p) Map.empty found
      in \<lparr>period = p, startDate = start, endDate = now, data = groupedSales\<rparr>)"

section \<open>Notions used in the statements\<close>

text \<open>
  A request whose quantity, if it is to be added, is an integer below \<open>10 ^ 21\<close> in
  magnitude. The quantity of a deduct request is any value.
\<close>

fun number_op :: "stock_op \<Rightarrow> bool" where
  "number_op (AddStock (JNum n)) = (\<bar>n\<bar> < 1000000000000000000000)"
| "number_op (AddStock _) = False"
| "number_op (DeductStock q) = True"

text \<open>
  The property keys of the deduct entries of \<open>sales\<close>, each once, in the order in which
  they first occur.
\<close>

definition sold_names :: "sale list \<Rightarrow> string list" where
  "sold_names sales = rev (remdups (rev (map (\<lambda>s. name_key (sale_name s)) (salesData_of sales))))"

text \<open>The order in which an object lists keys created in the order \<open>ks\<close>.\<close>

definition key_order :: "string list \<Rightarrow> string list" where
  "key_order ks =
     sort_key digits_value (filter is_array_index ks) @ filter (\<lambda>k. \<not> is_array_index k) ks"


text \<open>The bucket of the entries \<open>ms\<close>: none when there is no entry, else their sums.\<close>

definition bucket_of :: "sale list \<Rightarrow> bucket option" where
  "bucket_of ms =
     (if ms = [] then None
      else Some \<lparr>bucket_sales = sum_list (map quantity ms),
                 bucket_revenue = sum_list (map total ms)\<rparr>)"

text \<open>
  The ISO week, Monday to Sunday, a time falls in (in UTC), counted from the week of the
  epoch: day 0 was a Thursday, so day \<open>-3\<close> was a Monday.
\<close>

definition iso_week_index :: "int \<Rightarrow> int" where
  "iso_week_index t = (Day t + 3) div 7"

section \<open>Example data\<close>

text \<open>A store with one shoe and one bag and an empty ledger.\<close>

definition air :: product where
  "air = \<lparr>name = ''Air'', stock = 10, price = 100\<rparr>"

definition clutch :: product where
  "clutch = \<lparr>name = ''Clutch'', stock = 1, price = 10\<rparr>"

definition shop :: store where
  "shop = \<lparr>products = (\<lambda>c. Map.empty)(Shoes := [1 \<mapsto> air], Bags := [7 \<mapsto> clutch]),
           ledger = []\<rparr>"

text \<open>
  A deduct entry of bag 7. The time 1700000000000 is 2023-11-14 22:13:20 UTC, a Tuesday,
  day number 19675.
\<close>

definition sold :: "string \<Rightarrow> int \<Rightarrow> rat \<Rightarrow> int \<Rightarrow> sale" where
  "sold nm q pr t =
     \<lparr>productId = 7, category = Bags, sale_name = Some nm, quantity = q,
      sale_price = Some pr, total = pr * of_int q, type = Deduct, date = t\<rparr>"

text \<open>Two sales of the same name, on 13 and 14 November, and a restock between them.\<close>

definition clutch_sales :: "sale list" where
  "clutch_sales =
     [sold ''Clutch'' 3 10 1699900000000,
      (sold ''Clutch'' 9 10 1699950000000)\<lparr>type := Add\<rparr>,
      sold ''Clutch'' 4 10 1700000000000]"


text \<open>Sales at noon on Tuesday 7 and on Wednesday 8 November 2023.\<close>

definition week_sales :: "sale list" where
  "week_sales = [sold ''Clutch'' 1 10 1699358400000, sold ''Clutch'' 2 10 1699444800000]"

section \<open>Properties of the stock routes\<close>

subsection \<open>The store\<close>

lemma findById_save:
  "findById (save c i p st) c' i' = (if c' = c \<and> i' = i then Some p else findById st c' i')"
  by (simp add: findById_def save_def)

lemma findById_save_sale: "findById (save_sale e st) c i = findById st c i"
  by (simp add: findById_def save_sale_def)

lemma ledger_save: "ledger (save c i p st) = ledger st"
  by (simp add: save_def)

lemma ledger_save_sale: "ledger (save_sale e st) = ledger st @ [e]"
  by (simp add: save_sale_def)

lemma shop_air: "findById shop Shoes 1 = Some air"
  by (simp add: shop_def findById_def)

lemma shop_clutch: "findById shop Bags 7 = Some clutch"
  by (simp add: shop_def findById_def)

lemma ledger_shop: "ledger shop = []"
  by (simp add: shop_def)

subsection \<open>What a successful request did\<close>

text \<open>A quantity that passes \<^verbatim>\<open>!quantity || quantity <= 0\<close> stands for a positive number.\<close>

lemma passes_guard:
  assumes "ToNumber q \<noteq> Other" and "\<not> (\<not> ToBoolean q \<or> le_zero (ToNumber q))"
  shows "\<exists>n. ToNumber q = Num n \<and> 0 < n"
  using assms by (cases q) (auto split: if_splits option.splits)

lemma passes_parsed_guard:
  assumes "x \<noteq> Other" and "\<not> (\<not> truthy_number x \<or> le_zero x)"
  shows "\<exists>n. x = Num n \<and> 0 < n"
  using assms by (cases x) auto

text \<open>Without a string, \<^verbatim>\<open>stock += quantity\<close> adds the number of the quantity.\<close>

lemma plus_assign_number:
  "ToNumber (JNum n) = Num n \<and> plus_assign s (JNum n) = Num (s + n)"
  by (simp add: plus_assign_def)

lemma parseInt_number:
  "\<bar>n\<bar> < 1000000000000000000000 \<Longrightarrow> parseInt (JNum n) = Num n"
  by simp

lemma leading_digit_nonneg: "0 \<le> n \<Longrightarrow> 0 \<le> leading_digit n"
proof (induction n rule: leading_digit.induct)
  case (1 n)
  show ?case
  proof (cases "n < 10")
    case True
    with "1.prems" show ?thesis by (simp add: leading_digit.simps [of n])
  next
    case False
    with 1 have "0 \<le> leading_digit (n div 10)" by simp
    with False show ?thesis by (simp add: leading_digit.simps [of n])
  qed
qed

text \<open>What \<^verbatim>\<open>parseInt\<close> reads of a number is positive only if the number is.\<close>

lemma parseInt_positive:
  assumes "parseInt (JNum n) = Num k" and "0 < k"
  shows "0 < n"
proof (rule ccontr)
  assume "\<not> 0 < n"
  then have n: "n \<le> 0" by simp
  have "0 \<le> leading_digit \<bar>n\<bar>"
    by (rule leading_digit_nonneg) simp
  with n have "sgn n * leading_digit \<bar>n\<bar> \<le> 0"
    by (auto simp: sgn_if)
  with assms n show False
    by (auto split: if_splits)
qed

lemma shoes_add_Inr:
  assumes "fst (shoes_add i now q st) = Inr r"
  shows "\<exists>shoe n m. findById st Shoes i = Some shoe \<and> ToNumber q = Num n \<and> 0 < n \<and>
           plus_assign (stock shoe) q = Num m \<and>
           shoes_add i now q st =
             (Inr (Doc (shoe\<lparr>stock := m\<rparr>)),
              save_sale \<lparr>productId = i, category = Shoes, sale_name = Some (name shoe),
                         quantity = n, sale_price = Some (price shoe),
                         total = price shoe * of_int n, type = Add, date = now\<rparr>
                (save Shoes i (shoe\<lparr>stock := m\<rparr>) st))"
proof -
  from assms have o: "ToNumber q \<noteq> Other"
    by (auto simp: shoes_add_def split: if_splits)
  from assms o have g: "\<not> (\<not> ToBoolean q \<or> le_zero (ToNumber q))"
    by (auto simp: shoes_add_def split: if_splits)
  from passes_guard [OF o g] obtain n where n: "ToNumber q = Num n" "0 < n"
    by blast
  from assms o g obtain shoe where s: "findById st Shoes i = Some shoe"
    by (cases "findById st Shoes i") (auto simp: shoes_add_def)
  from assms o g s obtain m where m: "plus_assign (stock shoe) q = Num m"
    by (cases "plus_assign (stock shoe) q") (auto simp: shoes_add_def)
  show ?thesis
    using o g n s m by (simp add: shoes_add_def Let_def)
qed

lemma bags_dresses_add_Inr:
  assumes "fst (bags_dresses_add c i now q st) = Inr r"
  shows "\<exists>bag n. findById st c i = Some bag \<and> parseInt q = Num n \<and> 0 < n \<and>
           bags_dresses_add c i now q st =
             (Inr (StockOnly (stock bag + n)),
              save_sale \<lparr>productId = i, category = c, sale_name = Some (name bag),
                         quantity = n, sale_price = Some (price bag),
                         total = 0, type = Add, date = now\<rparr>
                (save c i (bag\<lparr>stock := stock bag + n\<rparr>) st))"
proof -
  from assms obtain bag where b: "findById st c i = Some bag"
    by (cases "findById st c i") (auto simp: bags_dresses_add_def)
  from assms b have o: "parseInt q \<noteq> Other"
    by (auto simp: bags_dresses_add_def Let_def split: if_splits)
  from assms b o have g: "\<not> (\<not> truthy_number (parseInt q) \<or> le_zero (parseInt q))"
    by (auto simp: bags_dresses_add_def Let_def split: if_splits)
  from passes_parsed_guard [OF o g] obtain n where n: "parseInt q = Num n" "0 < n"
    by blast
  show ?thesis
    using b n by (simp add: bags_dresses_add_def Let_def)
qed

lemma deduct_stock_Inr:
  assumes "fst (deduct_stock c i now q st) = Inr r"
  shows "\<exists>p n. findById st c i = Some p \<and> ToNumber q = Num n \<and> 0 < n \<and> n \<le> stock p \<and>
           deduct_stock c i now q st =
             (Inr (Doc (p\<lparr>stock := stock p - n\<rparr>)),
              save_sale \<lparr>productId = i, category = c, sale_name = Some (name p),
                         quantity = n, sale_price = Some (price p),
                         total = price p * of_int n, type = Deduct, date = now\<rparr>
                (save c i (p\<lparr>stock := stock p - n\<rparr>) st))"
proof -
  from assms have o: "ToNumber q \<noteq> Other"
    by (auto simp: deduct_stock_def split: if_splits)
  from assms o have g: "\<not> (\<not> ToBoolean q \<or> le_zero (ToNumber q))"
    by (auto simp: deduct_stock_def split: if_splits)
  from passes_guard [OF o g] obtain n where n: "ToNumber q = Num n" "0 < n"
    by blast
  from assms o g obtain p where p: "findById st c i = Some p"
    by (cases "findById st c i") (auto simp: deduct_stock_def)
  from assms o g n p have le: "n \<le> stock p"
    by (auto simp: deduct_stock_def split: if_splits)
  show ?thesis
    using o g n p le by (simp add: deduct_stock_def Let_def)
qed

text \<open>
  A successful add request, of any category: the entry has the number \<open>n\<close> the handler
  took the quantity for, and the stock becomes \<open>m\<close>, which is the stock plus \<open>n\<close> for a
  bag and a dress, and the result of \<^verbatim>\<open>+=\<close> for a shoe.
\<close>

lemma add_stock_Inr:
  assumes "fst (add_stock c i now q st) = Inr r"
  shows "\<exists>p n m. findById st c i = Some p \<and> 0 < n \<and>
           (if c = Shoes then ToNumber q = Num n \<and> plus_assign (stock p) q = Num m
            else parseInt q = Num n \<and> m = stock p + n) \<and>
           snd (add_stock c i now q st) =
              save_sale \<lparr>productId = i, category = c, sale_name = Some (name p),
                         quantity = n, sale_price = Some (price p),
                         total = (if c = Shoes then price p * of_int n else 0),
                         type = Add, date = now\<rparr>
                (save c i (p\<lparr>stock := m\<rparr>) st)"
proof (cases c)
  case Shoes
  with assms have "fst (shoes_add i now q st) = Inr r"
    by (simp add: add_stock_def)
  from shoes_add_Inr [OF this] show ?thesis
    using Shoes by (auto simp: add_stock_def)
next
  case Bags
  with assms have "fst (bags_dresses_add Bags i now q st) = Inr r"
    by (simp add: add_stock_def)
  from bags_dresses_add_Inr [OF this] show ?thesis
    using Bags by (auto simp: add_stock_def)
next
  case Dresses
  with assms have "fst (bags_dresses_add Dresses i now q st) = Inr r"
    by (simp add: add_stock_def)
  from bags_dresses_add_Inr [OF this] show ?thesis
    using Dresses by (auto simp: add_stock_def)
qed

text \<open>The same for a quantity that is an integer, below \<open>10 ^ 21\<close> unless the product is a
  shoe: the stock rises by the quantity and the entry has it.\<close>

lemma add_stock_number_Inr:
  assumes "fst (add_stock c i now (JNum n) st) = Inr r"
    and "c = Shoes \<or> \<bar>n\<bar> < 1000000000000000000000"
  shows "\<exists>p. findById st c i = Some p \<and> 0 < n \<and>
           snd (add_stock c i now (JNum n) st) =
              save_sale \<lparr>productId = i, category = c, sale_name = Some (name p),
                         quantity = n, sale_price = Some (price p),
                         total = (if c = Shoes then price p * of_int n else 0),
                         type = Add, date = now\<rparr>
                (save c i (p\<lparr>stock := stock p + n\<rparr>) st)"
proof -
  from add_stock_Inr [OF assms(1)] obtain p k m where
    p: "findById st c i = Some p" and k: "0 < k"
    and f: "if c = Shoes then ToNumber (JNum n) = Num k \<and> plus_assign (stock p) (JNum n) = Num m
            else parseInt (JNum n) = Num k \<and> m = stock p + k"
    and r: "snd (add_stock c i now (JNum n) st) =
              save_sale \<lparr>productId = i, category = c, sale_name = Some (name p),
                         quantity = k, sale_price = Some (price p),
                         total = (if c = Shoes then price p * of_int k else 0),
                         type = Add, date = now\<rparr>
                (save c i (p\<lparr>stock := m\<rparr>) st)"
    by blast
  have "k = n \<and> m = stock p + n"
  proof (cases "c = Shoes")
    case True
    with f show ?thesis by (simp add: plus_assign_def)
  next
    case False
    with assms(2) have "parseInt (JNum n) = Num n" by simp
    with f False show ?thesis by simp
  qed
  with p k r show ?thesis by auto
qed

text \<open>
  One successful request on product \<open>i\<close> whose quantity, if it is added, is an integer
  below \<open>10 ^ 21\<close>: the stock moves by the amount, up or down, a non-negative stock stays
  non-negative, and the ledger grows by one entry.
\<close>

lemma apply_op_Inr:
  assumes "fst (apply_op c i now op st) = Inr r" and "number_op op"
  shows "\<exists>p e. findById st c i = Some p \<and>
           findById (snd (apply_op c i now op st)) c i =
             Some (p\<lparr>stock := stock p + (case op of AddStock q \<Rightarrow> amount q
                                           | DeductStock q \<Rightarrow> - amount q)\<rparr>) \<and>
           0 \<le> stock p + (case op of AddStock q \<Rightarrow> amount q | DeductStock q \<Rightarrow> - amount q)
             - (if 0 \<le> stock p then 0 else stock p) \<and>
           ledger (snd (apply_op c i now op st)) = ledger st @ [e]"
proof (cases op)
  case (AddStock q)
  with assms(2) obtain n where q: "q = JNum n" and n: "\<bar>n\<bar> < 1000000000000000000000"
    by (cases q) auto
  from assms(1) AddStock q have "fst (add_stock c i now (JNum n) st) = Inr r"
    by (simp add: apply_op_def)
  from add_stock_number_Inr [OF this] n show ?thesis
    using AddStock q
    by (auto simp: apply_op_def amount_def findById_save findById_save_sale
        ledger_save ledger_save_sale)
next
  case (DeductStock q)
  with assms have "fst (deduct_stock c i now q st) = Inr r"
    by (simp add: apply_op_def)
  from deduct_stock_Inr [OF this] show ?thesis
    using DeductStock
    by (auto simp: apply_op_def amount_def findById_save findById_save_sale
        ledger_save ledger_save_sale)
qed

subsection \<open>Sequences of successful requests\<close>

text \<open>
  Take a product of any category and a sequence of add and deduct requests on it that
  all succeed, the added quantities being integers below \<open>10 ^ 21\<close>. Then the product's
  stock at the end is its initial stock plus the added quantities minus the deducted
  ones, and it is not negative if the initial stock was not.
\<close>

lemma run_ops_balance:
  assumes "findById st c i = Some p" and "run_ops c i ops st = Some st'"
    and "list_all (\<lambda>x. number_op (snd x)) ops"
  shows "\<exists>p'. findById st' c i = Some p' \<and>
           stock p' = stock p + added ops - deducted ops \<and>
           (0 \<le> stock p \<longrightarrow> 0 \<le> stock p')"
  using assms
proof (induction ops arbitrary: st p)
  case Nil
  then show ?case by simp
next
  case (Cons x ops)
  obtain now op where x: "x = (now, op)" by (cases x)
  from Cons.prems(2) x obtain r where r: "fst (apply_op c i now op st) = Inr r"
    and rest: "run_ops c i ops (snd (apply_op c i now op st)) = Some st'"
    by (cases "apply_op c i now op st") (auto split: sum.splits)
  from Cons.prems(3) x have no: "number_op op" and nos: "list_all (\<lambda>x. number_op (snd x)) ops"
    by simp_all
  from apply_op_Inr [OF r no] Cons.prems(1) obtain d where
    f: "findById (snd (apply_op c i now op st)) c i = Some (p\<lparr>stock := stock p + d\<rparr>)"
    and d: "d = (case op of AddStock q \<Rightarrow> amount q | DeductStock q \<Rightarrow> - amount q)"
    and nn: "0 \<le> stock p + d - (if 0 \<le> stock p then 0 else stock p)"
    by auto
  from nn have pos: "0 \<le> stock p \<longrightarrow> 0 \<le> stock (p\<lparr>stock := stock p + d\<rparr>)"
    by (auto split: if_splits)
  from Cons.IH [OF f rest nos] obtain p' where
    "findById st' c i = Some p'"
    "stock p' = stock p + d + added ops - deducted ops"
    "0 \<le> stock (p\<lparr>stock := stock p + d\<rparr>) \<longrightarrow> 0 \<le> stock p'"
    by auto
  with pos show ?case
    using x d by (cases op) auto
qed

text \<open>Every prefix of a sequence of successful requests is one.\<close>

lemma run_ops_take:
  assumes "run_ops c i ops st = Some st'"
  shows "\<exists>st''. run_ops c i (take k ops) st = Some st''"
  using assms
proof (induction ops arbitrary: st k)
  case Nil
  then show ?case by simp
next
  case (Cons x ops)
  show ?case
  proof (cases k)
    case 0
    then show ?thesis by simp
  next
    case (Suc j)
    obtain now op where x: "x = (now, op)" by (cases x)
    from Cons.prems x obtain r st1 where a: "apply_op c i now op st = (Inr r, st1)"
      and rest: "run_ops c i ops st1 = Some st'"
      by (cases "apply_op c i now op st") (auto split: sum.splits)
    from Cons.IH [OF rest, of j] show ?thesis
      using Suc x a by simp
  qed
qed

text \<open>So the balance holds at every point of such a sequence.\<close>

lemma run_ops_balance_prefix:
  assumes "findById st c i = Some p" and "run_ops c i ops st = Some st'"
    and "list_all (\<lambda>x. number_op (snd x)) ops"
  shows "\<exists>st'' p''. run_ops c i (take k ops) st = Some st'' \<and>
            findById st'' c i = Some p'' \<and>
            stock p'' = stock p + added (take k ops) - deducted (take k ops) \<and>
            (0 \<le> stock p \<longrightarrow> 0 \<le> stock p'')"
proof -
  from run_ops_take [OF assms(2), of k] obtain st'' where
    t: "run_ops c i (take k ops) st = Some st''" by blast
  from assms(3) have "list_all (\<lambda>x. number_op (snd x)) (take k ops)"
    by (auto simp: list_all_iff dest: in_set_takeD)
  from run_ops_balance [OF assms(1) t this] t show ?thesis by blast
qed

subsection \<open>A quantity that is a string\<close>

lemma string_5:
  "ToNumber (JStr ''5'') = Num 5" "ToBoolean (JStr ''5'')"
  "plus_assign 10 (JStr ''5'') = Num 105"
  by code_simp+

lemma string_2: "parseInt (JStr ''2'') = Num 2"
  by code_simp

text \<open>
  C1. The add request with the quantity \<^verbatim>\<open>"5"\<close>, a string, on the shoe of the example
  store, stock 10, succeeds. It is a sequence of one successful request, and the stock
  after it is 105, while the initial stock plus the added quantity is 15, and 5 is the
  quantity of the ledger entry. The add request with the quantity \<^verbatim>\<open>"2"\<close> on the bag of
  the store, stock 1, makes the stock 3.
\<close>

theorem shoes_add_string:
  "run_ops Shoes 1 [(0, AddStock (JStr ''5''))] shop =
     Some (snd (add_stock Shoes 1 0 (JStr ''5'') shop)) \<and>
   fst (add_stock Shoes 1 0 (JStr ''5'') shop) = Inr (Doc (air\<lparr>stock := 105\<rparr>)) \<and>
   findById (snd (add_stock Shoes 1 0 (JStr ''5'') shop)) Shoes 1 = Some (air\<lparr>stock := 105\<rparr>) \<and>
   ledger (snd (add_stock Shoes 1 0 (JStr ''5'') shop)) =
     [\<lparr>productId = 1, category = Shoes, sale_name = Some ''Air'', quantity = 5,
       sale_price = Some 100, total = 500, type = Add, date = 0\<rparr>] \<and>
   stock air + added [(0, AddStock (JStr ''5''))] - deducted [(0, AddStock (JStr ''5''))] = 15 \<and>
   fst (add_stock Bags 7 0 (JStr ''2'') shop) = Inr (StockOnly 3)"
proof -
  have a: "add_stock Shoes 1 0 (JStr ''5'') shop =
      (Inr (Doc (air\<lparr>stock := 105\<rparr>)),
       save_sale \<lparr>productId = 1, category = Shoes, sale_name = Some ''Air'', quantity = 5,
                  sale_price = Some 100, total = 500, type = Add, date = 0\<rparr>
         (save Shoes 1 (air\<lparr>stock := 105\<rparr>) shop))"
    using string_5 shop_air
    by (simp add: add_stock_def shoes_add_def Let_def air_def del: ToNumber.simps)
  have b: "fst (add_stock Bags 7 0 (JStr ''2'') shop) = Inr (StockOnly 3)"
    using string_2 shop_clutch
    by (simp add: add_stock_def bags_dresses_add_def Let_def clutch_def del: parseInt.simps)
  have c: "stock air + added [(0, AddStock (JStr ''5''))] - deducted [(0, AddStock (JStr ''5''))] = 15"
    using string_5 by (simp add: amount_def air_def del: ToNumber.simps)
  show ?thesis
    using a b c
    by (simp add: apply_op_def findById_save findById_save_sale ledger_save ledger_save_sale
        ledger_shop)
qed

theorem shoes_add_string_witness:
  "findById (snd (add_stock Shoes 1 0 (JStr ''5'') shop)) Shoes 1 \<noteq>
     Some (air\<lparr>stock := stock air
       + added [(0, AddStock (JStr ''5''))] - deducted [(0, AddStock (JStr ''5''))]\<rparr>)"
  using shoes_add_string by (simp add: air_def)

subsection \<open>Deducting more than the stock\<close>

text \<open>
  C2. For a product of any category and a positive integer quantity greater than its
  stock, the deduct request is answered \<^verbatim>\<open>Not enough stock\<close> and the store after it is
  the store before it: no stock has changed and the ledger has no new entry.
\<close>

theorem deduct_insufficient:
  assumes "findById st c i = Some p" and "0 < n" and "stock p < n"
  shows "deduct_stock c i now (JNum n) st = (Inl InsufficientStock, st)"
  using assms by (simp add: deduct_stock_def)

theorem deduct_insufficient_witness:
  "findById shop Shoes 1 = Some air \<and> (0::int) < 11 \<and> stock air < 11 \<and>
   deduct_stock Shoes 1 0 (JNum 11) shop = (Inl InsufficientStock, shop)"
proof -
  have a: "findById shop Shoes 1 = Some air" by (rule shop_air)
  have b: "(0::int) < 11" by simp
  have c: "stock air < 11" by (simp add: air_def)
  from deduct_insufficient [OF a b c] a b c show ?thesis by simp
qed

subsection \<open>The ledger entry of a successful request\<close>

text \<open>
  A successful add request, and a successful deduct request, with an integer quantity
  \<open>n\<close> (positive, or the request would not succeed; and below \<open>10 ^ 21\<close> where a bag or a
  dress is added to) leaves the ledger as it was with exactly one entry appended; the
  entry's \<^verbatim>\<open>productId\<close> is the product's id, its quantity is \<open>n\<close>, and its type is \<^verbatim>\<open>add\<close>
  or \<^verbatim>\<open>deduct\<close> as the request was.
\<close>

lemma stock_op_one_entry:
  "(fst (add_stock c i now (JNum n) st) = Inr r \<and> (c = Shoes \<or> \<bar>n\<bar> < 1000000000000000000000) \<longrightarrow>
      (\<exists>e. ledger (snd (add_stock c i now (JNum n) st)) = ledger st @ [e] \<and>
           productId e = i \<and> quantity e = n \<and> type e = Add)) \<and>
   (fst (deduct_stock c i now (JNum n) st) = Inr r \<longrightarrow>
      (\<exists>e. ledger (snd (deduct_stock c i now (JNum n) st)) = ledger st @ [e] \<and>
           productId e = i \<and> quantity e = n \<and> type e = Deduct))"
proof (intro conjI impI)
  assume "fst (add_stock c i now (JNum n) st) = Inr r \<and> (c = Shoes \<or> \<bar>n\<bar> < 1000000000000000000000)"
  then have s: "fst (add_stock c i now (JNum n) st) = Inr r"
    and b: "c = Shoes \<or> \<bar>n\<bar> < 1000000000000000000000"
    by simp_all
  from add_stock_number_Inr [OF s b]
  show "\<exists>e. ledger (snd (add_stock c i now (JNum n) st)) = ledger st @ [e] \<and>
           productId e = i \<and> quantity e = n \<and> type e = Add"
    by (auto simp: ledger_save ledger_save_sale)
next
  assume "fst (deduct_stock c i now (JNum n) st) = Inr r"
  from deduct_stock_Inr [OF this]
  show "\<exists>e. ledger (snd (deduct_stock c i now (JNum n) st)) = ledger st @ [e] \<and>
           productId e = i \<and> quantity e = n \<and> type e = Deduct"
    by (auto simp: ledger_save ledger_save_sale)
qed

lemma parseInt_1e21: "parseInt (JNum 1000000000000000000000) = Num 1"
  by code_simp

text \<open>
  C3. The add request with the quantity \<open>10 ^ 21\<close>, a positive integer, on the bag of the
  example store, stock 1, succeeds; the stock after it is 2 and the one entry it
  appends has the quantity 1. The same request on the shoe of the store appends an
  entry with the quantity \<open>10 ^ 21\<close>.
\<close>

theorem bags_add_1e21:
  "fst (add_stock Bags 7 0 (JNum 1000000000000000000000) shop) = Inr (StockOnly 2) \<and>
   ledger (snd (add_stock Bags 7 0 (JNum 1000000000000000000000) shop)) =
     [\<lparr>productId = 7, category = Bags, sale_name = Some ''Clutch'', quantity = 1,
       sale_price = Some 10, total = 0, type = Add, date = 0\<rparr>] \<and>
   map quantity (ledger (snd (add_stock Shoes 1 0 (JNum 1000000000000000000000) shop))) =
     [1000000000000000000000]"
proof -
  have a: "add_stock Bags 7 0 (JNum 1000000000000000000000) shop =
      (Inr (StockOnly 2),
       save_sale \<lparr>productId = 7, category = Bags, sale_name = Some ''Clutch'', quantity = 1,
                  sale_price = Some 10, total = 0, type = Add, date = 0\<rparr>
         (save Bags 7 (clutch\<lparr>stock := 2\<rparr>) shop))"
    using parseInt_1e21 shop_clutch
    by (simp add: add_stock_def bags_dresses_add_def Let_def clutch_def del: parseInt.simps)
  have b: "map quantity (ledger (snd (add_stock Shoes 1 0 (JNum 1000000000000000000000) shop))) =
      [1000000000000000000000]"
    using shop_air
    by (simp add: add_stock_def shoes_add_def Let_def plus_assign_def
        ledger_save ledger_save_sale ledger_shop)
  show ?thesis
    using a b by (simp add: ledger_save ledger_save_sale ledger_shop)
qed

theorem bags_add_1e21_witness:
  "map quantity (ledger (snd (add_stock Bags 7 0 (JNum 1000000000000000000000) shop))) \<noteq>
     [1000000000000000000000]"
  using bags_add_1e21 by simp

subsection \<open>The total of an add entry\<close>

text \<open>
  C4, as the routes have it. A successful add request with an integer quantity \<open>n\<close>,
  below \<open>10 ^ 21\<close> where the product is a bag or a dress, raises the product's stock by
  \<open>n\<close> and appends one entry of type \<^verbatim>\<open>add\<close> and quantity \<open>n\<close>. The entry's total is the
  unit price times \<open>n\<close> for a shoe; for a bag and for a dress it is 0.
\<close>

theorem add_stock_effect:
  assumes "findById st c i = Some p" and "fst (add_stock c i now (JNum n) st) = Inr r"
    and "c = Shoes \<or> n < 1000000000000000000000"
  shows "findById (snd (add_stock c i now (JNum n) st)) c i = Some (p\<lparr>stock := stock p + n\<rparr>) \<and>
         (\<exists>e. ledger (snd (add_stock c i now (JNum n) st)) = ledger st @ [e] \<and>
              type e = Add \<and> quantity e = n \<and>
              total e = (if c = Shoes then price p * of_int n else 0))"
proof -
  have "c = Shoes \<or> \<bar>n\<bar> < 1000000000000000000000"
  proof (cases "c = Shoes")
    case True
    then show ?thesis by simp
  next
    case False
    with assms(2) have "fst (bags_dresses_add c i now (JNum n) st) = Inr r"
      by (cases c) (simp_all add: add_stock_def)
    from bags_dresses_add_Inr [OF this] obtain k where "parseInt (JNum n) = Num k" "0 < k"
      by blast
    then have "0 < n"
      by (rule parseInt_positive)
    with assms(3) False show ?thesis by simp
  qed
  from add_stock_number_Inr [OF assms(2) this] assms(1) show ?thesis
    by (auto simp: ledger_save ledger_save_sale findById_save findById_save_sale)
qed

lemma shop_add_bag: "fst (add_stock Bags 7 0 (JNum 2) shop) = Inr (StockOnly 3)"
  by (simp add: add_stock_def bags_dresses_add_def shop_def findById_def clutch_def Let_def)

theorem add_stock_effect_witness:
  "findById shop Bags 7 = Some clutch \<and>
   fst (add_stock Bags 7 0 (JNum 2) shop) = Inr (StockOnly 3) \<and>
   findById (snd (add_stock Bags 7 0 (JNum 2) shop)) Bags 7 = Some (clutch\<lparr>stock := 3\<rparr>) \<and>
   (\<exists>e. ledger (snd (add_stock Bags 7 0 (JNum 2) shop)) = ledger shop @ [e] \<and>
        type e = Add \<and> quantity e = 2 \<and> total e = 0)"
proof -
  have b: "Bags = Shoes \<or> (2::int) < 1000000000000000000000" by simp
  from add_stock_effect [OF shop_clutch shop_add_bag b] shop_clutch shop_add_bag
  show ?thesis by (simp add: clutch_def)
qed

text \<open>
  The bag of the example store, unit price 10: adding 2 succeeds, and the total of the
  entry it appends is not 20.
\<close>

theorem add_stock_total_counterexample:
  "findById shop Bags 7 = Some clutch \<and>
   fst (add_stock Bags 7 0 (JNum 2) shop) = Inr (StockOnly 3) \<and>
   total (last (ledger (snd (add_stock Bags 7 0 (JNum 2) shop)))) \<noteq> price clutch * 2"
  by (simp add: add_stock_def bags_dresses_add_def shop_def findById_def clutch_def Let_def
      save_def save_sale_def)

subsection \<open>Name and price in the entry of a creation\<close>

text \<open>
  C5. The entry written when a shoe is created has neither name nor price, while the
  entry written when a bag is created from the same body has both.
\<close>

theorem shoes_create_entry:
  "sale_name (last (ledger (snd (create_product Shoes 1 0
      \<lparr>body_name = ''Air'', body_stock = 10, body_price = 100\<rparr>
      \<lparr>products = (\<lambda>c. Map.empty), ledger = []\<rparr>)))) = None \<and>
   sale_price (last (ledger (snd (create_product Shoes 1 0
      \<lparr>body_name = ''Air'', body_stock = 10, body_price = 100\<rparr>
      \<lparr>products = (\<lambda>c. Map.empty), ledger = []\<rparr>)))) = None \<and>
   sale_name (last (ledger (snd (create_product Bags 1 0
      \<lparr>body_name = ''Air'', body_stock = 10, body_price = 100\<rparr>
      \<lparr>products = (\<lambda>c. Map.empty), ledger = []\<rparr>)))) = Some ''Air'' \<and>
   sale_price (last (ledger (snd (create_product Bags 1 0
      \<lparr>body_name = ''Air'', body_stock = 10, body_price = 100\<rparr>
      \<lparr>products = (\<lambda>c. Map.empty), ledger = []\<rparr>)))) = Some 100"
  by (simp add: create_product_def shoes_create_def bags_dresses_create_def Let_def
      save_def save_sale_def)

text \<open>So the entry of a created shoe names no product, and that of a bag does.\<close>

theorem shoes_create_entry_witness:
  "sale_name (last (ledger (snd (create_product Shoes 1 0
      \<lparr>body_name = ''Air'', body_stock = 10, body_price = 100\<rparr>
      \<lparr>products = (\<lambda>c. Map.empty), ledger = []\<rparr>)))) \<noteq>
   sale_name (last (ledger (snd (create_product Bags 1 0
      \<lparr>body_name = ''Air'', body_stock = 10, body_price = 100\<rparr>
      \<lparr>products = (\<lambda>c. Map.empty), ledger = []\<rparr>))))"
  using shoes_create_entry by simp

text \<open>
  The other writers of the ledger do record both: the entry of a successful add or
  deduct request has the product's name and unit price, and so has the entry of a
  created bag or dress.
\<close>

lemma stock_entry_name_price:
  assumes "findById st c i = Some p"
  shows "fst (add_stock c i now q st) = Inr r \<Longrightarrow>
           \<exists>e. ledger (snd (add_stock c i now q st)) = ledger st @ [e] \<and>
             sale_name e = Some (name p) \<and> sale_price e = Some (price p)"
    and "fst (deduct_stock c i now q st) = Inr r \<Longrightarrow>
           \<exists>e. ledger (snd (deduct_stock c i now q st)) = ledger st @ [e] \<and>
             sale_name e = Some (name p) \<and> sale_price e = Some (price p)"
proof -
  assume "fst (add_stock c i now q st) = Inr r"
  from add_stock_Inr [OF this] assms
  show "\<exists>e. ledger (snd (add_stock c i now q st)) = ledger st @ [e] \<and>
      sale_name e = Some (name p) \<and> sale_price e = Some (price p)"
    by (auto simp: ledger_save ledger_save_sale)
next
  assume "fst (deduct_stock c i now q st) = Inr r"
  from deduct_stock_Inr [OF this] assms
  show "\<exists>e. ledger (snd (deduct_stock c i now q st)) = ledger st @ [e] \<and>
      sale_name e = Some (name p) \<and> sale_price e = Some (price p)"
    by (auto simp: ledger_save ledger_save_sale)
qed

lemma bags_dresses_create_name_price:
  "ledger (snd (bags_dresses_create c i now body st)) =
     ledger st @ [\<lparr>productId = i, category = c, sale_name = Some (body_name body),
                   quantity = body_stock body, sale_price = Some (body_price body),
                   total = body_price body * of_int (body_stock body),
                   type = Add, date = now\<rparr>]"
  by (simp add: bags_dresses_create_def Let_def ledger_save ledger_save_sale)

subsection \<open>A quantity that is not a number\<close>

text \<open>
  C6. The quantity \<^verbatim>\<open>true\<close> is not a number, and the deduct request with it on the shoe
  of the example store is not refused: it succeeds, takes 1 from the stock and appends
  a ledger entry of quantity 1.
\<close>

theorem deduct_true_succeeds:
  "fst (deduct_stock Shoes 1 0 (JBool True) shop) = Inr (Doc (air\<lparr>stock := 9\<rparr>)) \<and>
   ledger (snd (deduct_stock Shoes 1 0 (JBool True) shop)) =
     [\<lparr>productId = 1, category = Shoes, sale_name = Some ''Air'', quantity = 1,
       sale_price = Some 100, total = 100, type = Deduct, date = 0\<rparr>]"
  by (simp add: deduct_stock_def shop_def findById_def air_def Let_def save_def save_sale_def)

theorem deduct_true_succeeds_witness:
  "fst (deduct_stock Shoes 1 0 (JBool True) shop) \<noteq> Inl InvalidQuantity \<and>
   length (ledger (snd (deduct_stock Shoes 1 0 (JBool True) shop))) = 1"
  using deduct_true_succeeds by simp

text \<open>
  C10. With the quantity \<^verbatim>\<open>true\<close> and an id that does not resolve, the deduct request
  is answered \<^verbatim>\<open>not found\<close>, not \<^verbatim>\<open>Invalid quantity\<close>.
\<close>

theorem deduct_true_unknown_id:
  "findById shop Dresses 3 = None \<and>
   deduct_stock Dresses 3 0 (JBool True) shop = (Inl NotFound, shop)"
  by (simp add: deduct_stock_def shop_def findById_def)

theorem deduct_true_unknown_id_witness:
  "fst (deduct_stock Dresses 3 0 (JBool True) shop) \<noteq> Inl InvalidQuantity"
  using deduct_true_unknown_id by simp

text \<open>
  The add routes of bags and dresses look the product up first: with an id that does
  not resolve they answer \<^verbatim>\<open>not found\<close> whatever the quantity is. The deduct routes
  refuse a quantity that is falsy or a number not above 0 before any lookup.
\<close>

lemma bags_dresses_add_unknown_id:
  "findById st c i = None \<Longrightarrow> bags_dresses_add c i now q st = (Inl NotFound, st)"
  by (simp add: bags_dresses_add_def)

lemma deduct_refused_before_lookup:
  "ToNumber q \<noteq> Other \<Longrightarrow> \<not> ToBoolean q \<or> le_zero (ToNumber q) \<Longrightarrow>
     deduct_stock c i now q st = (Inl InvalidQuantity, st)"
  by (auto simp: deduct_stock_def)

lemma deduct_refuses_numbers_not_above_zero:
  "n \<le> 0 \<Longrightarrow> deduct_stock c i now (JNum n) st = (Inl InvalidQuantity, st)"
  by (rule deduct_refused_before_lookup) simp_all

section \<open>Properties of the date arithmetic\<close>

subsection \<open>Moving a date by days\<close>

lemma MonthFromTime_range: "0 \<le> MonthFromTime t \<and> MonthFromTime t \<le> 11"
  by (simp add: MonthFromTime_def Let_def)

lemma MakeDay_in_month:
  assumes "0 \<le> m" and "m \<le> 11"
  shows "MakeDay y m d = DayFromYear y + month_start (if DaysInYear y = 366 then 1 else 0) m + d - 1"
proof -
  from assms have "m div 12 = 0" and "m mod 12 = m" by simp_all
  then show ?thesis by (simp add: MakeDay_def Let_def)
qed

lemma MakeDay_fields:
  "MakeDay (YearFromTime t) (MonthFromTime t) (DateFromTime t - i) = Day t - i"
proof -
  have "MakeDay (YearFromTime t) (MonthFromTime t) (DateFromTime t - i) =
      DayFromYear (YearFromTime t) + month_start (InLeapYear t) (MonthFromTime t)
        + (DateFromTime t - i) - 1"
    using MonthFromTime_range [of t]
    by (simp add: MakeDay_in_month InLeapYear_def)
  also have "\<dots> = Day t - i"
    by (simp add: DateFromTime_def DayWithinYear_def)
  finally show ?thesis .
qed

lemma MakeDate_Day: "MakeDate (Day t - i) (TimeWithinDay t) = t - i * msPerDay"
proof -
  have "t div msPerDay * msPerDay + t mod msPerDay = t" by simp
  then show ?thesis
    by (simp add: MakeDate_def Day_def TimeWithinDay_def algebra_simps)
qed

text \<open>In a zone without clock changes the setters move the time by whole days.\<close>

lemma LocalTime_fixed: "LocalTime (fixed_zone c) t = t + c"
  by (simp add: LocalTime_def fixed_zone_def)

lemma UTC_fixed: "UTC (fixed_zone c) l = l - c"
  by (simp add: UTC_def fixed_zone_def)

lemma setDate_getDate: "setDate (fixed_zone tza) t (getDate (fixed_zone tza) t - i) = t - i * msPerDay"
  by (simp add: setDate_def getDate_def Let_def MakeDay_fields MakeDate_Day LocalTime_fixed UTC_fixed)

lemma Day_shift: "Day (t - i * msPerDay) = Day t - i"
  by (simp add: Day_def msPerDay_def)

subsection \<open>The year of a day\<close>

lemma div_bounds:
  fixes a n :: int
  assumes "0 < n"
  shows "n * (a div n) \<le> a" and "a < n * (a div n) + n"
proof -
  have "n * (a div n) + a mod n = a" by simp
  moreover have "0 \<le> a mod n" and "a mod n < n"
    using assms by simp_all
  ultimately show "n * (a div n) \<le> a" and "a < n * (a div n) + n"
    by linarith+
qed

lemma div_step:
  fixes a n :: int
  assumes "0 < n"
  shows "(a + 1) div n = a div n + (if (a + 1) mod n = 0 then 1 else 0)"
proof -
  define q r where "q = a div n" and "r = a mod n"
  have a: "a = n * q + r" and r: "0 \<le> r" "r < n"
    using assms by (simp_all add: q_def r_def)
  show ?thesis
  proof (cases "r + 1 = n")
    case True
    with a have e: "a + 1 = n * (q + 1) + 0" by (simp add: algebra_simps)
    from e assms have "(a + 1) div n = q + 1"
      by (intro int_div_pos_eq [where r = 0]) simp_all
    moreover from e assms have "(a + 1) mod n = 0"
      by (intro int_mod_pos_eq [where q = "q + 1"]) simp_all
    ultimately show ?thesis by (simp add: q_def)
  next
    case False
    with r have r1: "0 \<le> r + 1" "r + 1 < n" by simp_all
    from a have e: "a + 1 = n * q + (r + 1)" by simp
    from e r1 have "(a + 1) div n = q"
      by (rule int_div_pos_eq)
    moreover from e r1 have "(a + 1) mod n = r + 1"
      by (rule int_mod_pos_eq)
    ultimately show ?thesis using r by (simp add: q_def)
  qed
qed

lemma mod_shift:
  fixes y n k :: int
  shows "(y - k * n) mod n = 0 \<longleftrightarrow> y mod n = 0"
proof -
  have "(y - k * n) mod n = (y + (- k) * n) mod n" by simp
  also have "\<dots> = y mod n" by (rule mod_mult_self1)
  finally show ?thesis by simp
qed

lemma mod_0_trans:
  fixes y m n :: int
  assumes "y mod n = 0" and "m dvd n"
  shows "y mod m = 0"
proof -
  from assms(1) have "n dvd y" by (simp add: mod_eq_0_iff_dvd)
  with assms(2) have "m dvd y" by (rule dvd_trans)
  then show ?thesis by (simp add: mod_eq_0_iff_dvd)
qed

lemma DayFromYear_Suc: "DayFromYear (y + 1) = DayFromYear y + DaysInYear y"
proof -
  have a: "(y + 1 - 1969) div 4 = (y - 1969) div 4 + (if y mod 4 = 0 then 1 else 0)"
    using div_step [of 4 "y - 1969"] mod_shift [of y 492 4] by (simp add: algebra_simps)
  have b: "(y + 1 - 1901) div 100 = (y - 1901) div 100 + (if y mod 100 = 0 then 1 else 0)"
    using div_step [of 100 "y - 1901"] mod_shift [of y 19 100] by (simp add: algebra_simps)
  have c: "(y + 1 - 1601) div 400 = (y - 1601) div 400 + (if y mod 400 = 0 then 1 else 0)"
    using div_step [of 400 "y - 1601"] mod_shift [of y 4 400] by (simp add: algebra_simps)
  have d: "y mod 100 = 0 \<Longrightarrow> y mod 4 = 0"
    by (rule mod_0_trans [of y 100 4]) simp_all
  have e: "y mod 400 = 0 \<Longrightarrow> y mod 100 = 0"
    by (rule mod_0_trans [of y 400 100]) simp_all
  show ?thesis
    unfolding DayFromYear_def DaysInYear_def a b c
    using d e by auto
qed

lemma DaysInYear_range: "365 \<le> DaysInYear y \<and> DaysInYear y \<le> 366"
  by (simp add: DaysInYear_def)

lemma DayFromYear_bounds:
  shows "146097 * y - 287811596 \<le> 400 * DayFromYear y"
    and "400 * DayFromYear y \<le> 146097 * y - 287810501"
proof -
  define A B C where "A = (y - 1969) div 4" and "B = (y - 1901) div 100"
    and "C = (y - 1601) div 400"
  have "4 * A \<le> y - 1969" "y - 1969 < 4 * A + 4"
    unfolding A_def by (rule div_bounds, simp)+
  moreover have "100 * B \<le> y - 1901" "y - 1901 < 100 * B + 100"
    unfolding B_def by (rule div_bounds, simp)+
  moreover have "400 * C \<le> y - 1601" "y - 1601 < 400 * C + 400"
    unfolding C_def by (rule div_bounds, simp)+
  moreover have "400 * DayFromYear y = 146000 * y - 287620000 + 400 * A - 400 * B + 400 * C"
    by (simp add: DayFromYear_def A_def B_def C_def)
  ultimately show "146097 * y - 287811596 \<le> 400 * DayFromYear y"
    and "400 * DayFromYear y \<le> 146097 * y - 287810501"
    by linarith+
qed

lemma YearFromDay_spec:
  "DayFromYear (YearFromDay d) \<le> d \<and> d < DayFromYear (YearFromDay d + 1)"
proof -
  define q where "q = (400 * d) div 146097"
  define g where "g = 1970 + q"
  have q: "146097 * q \<le> 400 * d" "400 * d < 146097 * q + 146097"
    unfolding q_def by (rule div_bounds, simp)+
  have "400 * DayFromYear (g - 1) \<le> 146097 * (g - 1) - 287810501"
    by (rule DayFromYear_bounds)
  also have "146097 * (g - 1) - 287810501 = 146097 * q - 145508"
    by (simp add: g_def)
  finally have lo: "DayFromYear (g - 1) \<le> d"
    using q by linarith
  have "146097 * (g + 2) - 287811596 \<le> 400 * DayFromYear (g + 2)"
    by (rule DayFromYear_bounds)
  moreover have "146097 * (g + 2) - 287811596 = 146097 * q + 291688"
    by (simp add: g_def)
  ultimately have hi: "d < DayFromYear (g + 2)"
    using q by linarith
  have y: "YearFromDay d =
      (if d < DayFromYear g then g - 1 else if DayFromYear (g + 1) \<le> d then g + 1 else g)"
    by (simp add: YearFromDay_def g_def q_def Let_def)
  show ?thesis
    unfolding y using lo hi by (auto simp: algebra_simps)
qed

lemma DayFromYear_mono_nat: "DayFromYear y < DayFromYear (y + 1 + int n)"
proof (induction n)
  case 0
  show ?case using DayFromYear_Suc [of y] DaysInYear_range [of y] by simp
next
  case (Suc n)
  have "DayFromYear (y + 1 + int (Suc n)) = DayFromYear ((y + 1 + int n) + 1)"
    by (simp add: algebra_simps)
  also have "\<dots> = DayFromYear (y + 1 + int n) + DaysInYear (y + 1 + int n)"
    by (rule DayFromYear_Suc)
  finally show ?case
    using Suc.IH DaysInYear_range [of "y + 1 + int n"] by linarith
qed

lemma DayFromYear_strict_mono: "y < y' \<Longrightarrow> DayFromYear y < DayFromYear y'"
proof -
  assume "y < y'"
  then have "y' = y + 1 + int (nat (y' - y - 1))" by simp
  then show ?thesis using DayFromYear_mono_nat [of y "nat (y' - y - 1)"] by simp
qed

lemma DayFromYear_le_mono: "y \<le> y' \<Longrightarrow> DayFromYear y \<le> DayFromYear y'"
  using DayFromYear_strict_mono [of y y'] by (cases "y = y'") auto

lemma YearFromDay_unique:
  assumes "DayFromYear y \<le> d" and "d < DayFromYear (y + 1)"
  shows "YearFromDay d = y"
proof -
  let ?z = "YearFromDay d"
  have z: "DayFromYear ?z \<le> d" "d < DayFromYear (?z + 1)"
    using YearFromDay_spec [of d] by simp_all
  have "\<not> ?z < y"
  proof
    assume "?z < y"
    then have "DayFromYear (?z + 1) \<le> DayFromYear y" by (intro DayFromYear_le_mono) simp
    with z assms show False by linarith
  qed
  moreover have "\<not> y < ?z"
  proof
    assume "y < ?z"
    then have "DayFromYear (y + 1) \<le> DayFromYear ?z" by (intro DayFromYear_le_mono) simp
    with z assms show False by linarith
  qed
  ultimately show ?thesis by simp
qed

subsection \<open>The fields of a date that was set\<close>

lemma DayWithinYear_range: "0 \<le> DayWithinYear t \<and> DayWithinYear t < DaysInYear (YearFromTime t)"
  using YearFromDay_spec [of "Day t"] DayFromYear_Suc [of "YearFromDay (Day t)"]
  by (simp add: DayWithinYear_def YearFromTime_def)

lemma InLeapYear_range: "InLeapYear t = 0 \<or> InLeapYear t = 1"
  by (simp add: InLeapYear_def)

lemma month_start_simps:
  "month_start l 0 = 0" "month_start l 1 = 31" "month_start l 2 = 59 + l"
  "month_start l 3 = 90 + l" "month_start l 4 = 120 + l" "month_start l 5 = 151 + l"
  "month_start l 6 = 181 + l" "month_start l 7 = 212 + l" "month_start l 8 = 243 + l"
  "month_start l 9 = 273 + l" "month_start l 10 = 304 + l" "month_start l 11 = 334 + l"
  by (simp_all add: month_start_def)

lemma DateFromTime_pos: "1 \<le> DateFromTime t"
  using DayWithinYear_range [of t]
  by (simp add: DateFromTime_def MonthFromTime_def Let_def month_start_simps)

lemma month_cases:
  fixes m :: int
  assumes "0 \<le> m" and "m \<le> 11"
  shows "m = 0 \<or> m = 1 \<or> m = 2 \<or> m = 3 \<or> m = 4 \<or> m = 5 \<or> m = 6 \<or> m = 7 \<or> m = 8
    \<or> m = 9 \<or> m = 10 \<or> m = 11"
  using assms by arith

text \<open>A day of a month, up to the 28th, is the day it is made from.\<close>

lemma fields_of_MakeDay:
  assumes m: "0 \<le> m" "m \<le> 11" and d: "1 \<le> dd" "dd \<le> 28" and t: "Day t = MakeDay y m dd"
  shows "YearFromTime t = y \<and> MonthFromTime t = m \<and> DateFromTime t = dd"
proof -
  define leap :: int where "leap = (if DaysInYear y = 366 then 1 else 0)"
  have l: "leap = 0 \<or> leap = 1" by (simp add: leap_def)
  have day: "Day t = DayFromYear y + month_start leap m + dd - 1"
    using t m by (simp add: MakeDay_in_month leap_def)
  have ms: "0 \<le> month_start leap m" "month_start leap m \<le> 335"
    using l by (auto simp: month_start_def)
  have "DayFromYear y \<le> Day t"
    using day ms d by linarith
  moreover have "Day t < DayFromYear (y + 1)"
    using day ms d DayFromYear_Suc [of y] DaysInYear_range [of y] by linarith
  ultimately have y: "YearFromTime t = y"
    unfolding YearFromTime_def by (rule YearFromDay_unique)
  then have il: "InLeapYear t = leap"
    by (simp add: InLeapYear_def leap_def)
  have dwy: "DayWithinYear t = month_start leap m + dd - 1"
    using day y by (simp add: DayWithinYear_def)
  have mo: "MonthFromTime t = m"
    using month_cases [OF m] l d
    by (elim disjE) (simp_all add: MonthFromTime_def Let_def il dwy month_start_simps)
  show ?thesis
    using y mo by (simp add: DateFromTime_def il dwy)
qed

lemma MakeDay_normal: "MakeDay y m dd = MakeDay (y + m div 12) (m mod 12) dd"
  by (simp add: MakeDay_def Let_def)

lemma TimeWithinDay_range: "0 \<le> TimeWithinDay t \<and> TimeWithinDay t < msPerDay"
  by (simp add: TimeWithinDay_def msPerDay_def)

lemma Day_MakeDate:
  assumes "0 \<le> tm" and "tm < msPerDay"
  shows "Day (MakeDate dy tm) = dy" and "TimeWithinDay (MakeDate dy tm) = tm"
proof -
  have e: "MakeDate dy tm = msPerDay * dy + tm" by (simp add: MakeDate_def)
  show "Day (MakeDate dy tm) = dy"
    unfolding Day_def using e assms by (rule int_div_pos_eq)
  show "TimeWithinDay (MakeDate dy tm) = tm"
    unfolding TimeWithinDay_def using e assms by (rule int_mod_pos_eq)
qed

lemma LocalTime_UTC: "LocalTime (fixed_zone tza) (UTC (fixed_zone tza) t) = t"
  by (simp add: LocalTime_fixed UTC_fixed)

lemma setMonth_local:
  "Day (LocalTime (fixed_zone tza) (setMonth (fixed_zone tza) t mo)) =
     MakeDay (getFullYear (fixed_zone tza) t) mo (getDate (fixed_zone tza) t) \<and>
   TimeWithinDay (LocalTime (fixed_zone tza) (setMonth (fixed_zone tza) t mo)) = TimeWithinDay (LocalTime (fixed_zone tza) t)"
  using TimeWithinDay_range [of "LocalTime (fixed_zone tza) t"]
  by (simp add: setMonth_def Let_def LocalTime_UTC Day_MakeDate getFullYear_def getDate_def)

lemma setFullYear_local:
  "Day (LocalTime (fixed_zone tza) (setFullYear (fixed_zone tza) t yr)) =
     MakeDay yr (getMonth (fixed_zone tza) t) (getDate (fixed_zone tza) t) \<and>
   TimeWithinDay (LocalTime (fixed_zone tza) (setFullYear (fixed_zone tza) t yr)) = TimeWithinDay (LocalTime (fixed_zone tza) t)"
  using TimeWithinDay_range [of "LocalTime (fixed_zone tza) t"]
  by (simp add: setFullYear_def Let_def LocalTime_UTC Day_MakeDate getMonth_def getDate_def)

lemma setMonth_fields:
  assumes "getDate (fixed_zone tza) t \<le> 28"
  shows "getFullYear (fixed_zone tza) (setMonth (fixed_zone tza) t mo) = getFullYear (fixed_zone tza) t + mo div 12 \<and>
         getMonth (fixed_zone tza) (setMonth (fixed_zone tza) t mo) = mo mod 12 \<and>
         getDate (fixed_zone tza) (setMonth (fixed_zone tza) t mo) = getDate (fixed_zone tza) t"
proof -
  have d: "Day (LocalTime (fixed_zone tza) (setMonth (fixed_zone tza) t mo)) =
      MakeDay (getFullYear (fixed_zone tza) t + mo div 12) (mo mod 12) (getDate (fixed_zone tza) t)"
    using setMonth_local [of tza t mo] MakeDay_normal [of "getFullYear (fixed_zone tza) t" mo] by simp
  have "0 \<le> mo mod 12" "mo mod 12 \<le> 11" by simp_all
  moreover have "1 \<le> getDate (fixed_zone tza) t"
    by (simp add: getDate_def DateFromTime_pos)
  ultimately show ?thesis
    using fields_of_MakeDay [OF _ _ _ assms d]
    by (simp add: getFullYear_def getMonth_def getDate_def)
qed

lemma setFullYear_fields:
  assumes "getDate (fixed_zone tza) t \<le> 28"
  shows "getFullYear (fixed_zone tza) (setFullYear (fixed_zone tza) t yr) = yr \<and>
         getMonth (fixed_zone tza) (setFullYear (fixed_zone tza) t yr) = getMonth (fixed_zone tza) t \<and>
         getDate (fixed_zone tza) (setFullYear (fixed_zone tza) t yr) = getDate (fixed_zone tza) t"
proof -
  have d: "Day (LocalTime (fixed_zone tza) (setFullYear (fixed_zone tza) t yr)) =
      MakeDay yr (getMonth (fixed_zone tza) t) (getDate (fixed_zone tza) t)"
    using setFullYear_local [of tza t yr] by simp
  have "0 \<le> getMonth (fixed_zone tza) t" "getMonth (fixed_zone tza) t \<le> 11"
    using MonthFromTime_range [of "LocalTime (fixed_zone tza) t"] by (simp_all add: getMonth_def)
  moreover have "1 \<le> getDate (fixed_zone tza) t"
    by (simp add: getDate_def DateFromTime_pos)
  ultimately show ?thesis
    using fields_of_MakeDay [OF _ _ _ assms d]
    by (simp add: getFullYear_def getMonth_def getDate_def)
qed

section \<open>Properties of the dashboard\<close>

subsection \<open>Sums\<close>

lemma foldl_plus: "foldl (\<lambda>sum s. sum + f s) a xs = a + sum_list (map f xs)"
  for a :: "'a::monoid_add"
  by (induction xs arbitrary: a) (simp_all add: add.assoc)

lemma sum_quantity_list: "sum_quantity xs = sum_list (map quantity xs)"
  by (simp add: sum_quantity_def foldl_plus)

lemma sum_total_list: "sum_total xs = sum_list (map total xs)"
  by (simp add: sum_total_def foldl_plus)

subsection \<open>Sales trend\<close>

lemma trend_point_at_eq:
  "trend_point_at (fixed_zone tza) today (salesData_of sales) i =
     \<lparr>trend_date = isoDate today - i,
      trend_sales = sum_list (map quantity
        (filter (\<lambda>s. type s = Deduct \<and> isoDate (date s) = isoDate today - i) sales)),
      trend_revenue = sum_list (map total
        (filter (\<lambda>s. type s = Deduct \<and> isoDate (date s) = isoDate today - i) sales))\<rparr>"
proof -
  have "filter (\<lambda>s. isoDate (date s) = isoDate today - i) (salesData_of sales) =
      filter (\<lambda>s. type s = Deduct \<and> isoDate (date s) = isoDate today - i) sales"
    by (simp add: salesData_of_def conj_commute)
  then show ?thesis
    by (simp add: trend_point_at_def Let_def setDate_getDate isoDate_def Day_shift
        sum_quantity_list sum_total_list)
qed

lemma trend_loop_eq:
  "trend_loop z today sd n = map (\<lambda>k. trend_point_at z today sd (int n - int k)) [0..<Suc n]"
proof (induction n)
  case 0
  show ?case by simp
next
  case (Suc n)
  have "map (\<lambda>k. trend_point_at z today sd (int (Suc n) - int k)) [0..<Suc (Suc n)] =
      trend_point_at z today sd (int (Suc n)) #
      map (\<lambda>k. trend_point_at z today sd (int (Suc n) - int k)) (map Suc [0..<Suc n])"
    by (simp only: upt_conv_Cons [of 0 "Suc (Suc n)"] map_Suc_upt [symmetric]) simp
  also have "map (\<lambda>k. trend_point_at z today sd (int (Suc n) - int k)) (map Suc [0..<Suc n]) =
      map (\<lambda>k. trend_point_at z today sd (int n - int k)) [0..<Suc n]"
    by (simp add: comp_def)
  finally show ?case
    using Suc.IH by simp
qed

text \<open>
  In a zone without clock changes, whatever array of entries the query returned and
  whatever the current time, the sales trend has exactly seven points, oldest first.
  Their dates are the seven consecutive UTC calendar days that end with the current
  one: point \<open>k\<close> (from 0) is day \<open>isoDate today - 6 + k\<close>. Each point carries the summed
  quantity and the summed total of the deduct entries of its day; these sums are 0 for
  a day without deduct entries, and the point is there all the same.
\<close>

lemma salesTrend_fixed_zone:
  "salesTrend (fixed_zone tza) today sales =
     map (\<lambda>k. \<lparr>trend_date = isoDate today - 6 + int k,
               trend_sales = sum_list (map quantity
                 (filter (\<lambda>s. type s = Deduct \<and> isoDate (date s) = isoDate today - 6 + int k) sales)),
               trend_revenue = sum_list (map total
                 (filter (\<lambda>s. type s = Deduct \<and> isoDate (date s) = isoDate today - 6 + int k) sales))\<rparr>)
       [0..<7]"
proof -
  have "salesTrend (fixed_zone tza) today sales =
      map (\<lambda>k. trend_point_at (fixed_zone tza) today (salesData_of sales) (int 6 - int k))
        [0..<Suc 6]"
    unfolding salesTrend_def by (rule trend_loop_eq)
  also have "\<dots> =
      map (\<lambda>k. trend_point_at (fixed_zone tza) today (salesData_of sales) (6 - int k)) [0..<7]"
    by simp
  finally show ?thesis
    by (simp add: trend_point_at_eq algebra_simps)
qed

text \<open>
  The example sales seen on 14 November 2023 in the zone of UTC: 3 pieces on the 13th,
  4 on the 14th, the restock not counted, and five days of zeros before them.
\<close>

lemma salesTrend_clutch:
  "salesTrend (fixed_zone 0) 1700000000000 clutch_sales =
     [\<lparr>trend_date = 19669, trend_sales = 0, trend_revenue = 0\<rparr>,
      \<lparr>trend_date = 19670, trend_sales = 0, trend_revenue = 0\<rparr>,
      \<lparr>trend_date = 19671, trend_sales = 0, trend_revenue = 0\<rparr>,
      \<lparr>trend_date = 19672, trend_sales = 0, trend_revenue = 0\<rparr>,
      \<lparr>trend_date = 19673, trend_sales = 0, trend_revenue = 0\<rparr>,
      \<lparr>trend_date = 19674, trend_sales = 3, trend_revenue = 30\<rparr>,
      \<lparr>trend_date = 19675, trend_sales = 4, trend_revenue = 40\<rparr>]"
proof -
  have u: "[0..<7] = [0, 1, 2, 3, 4, 5, 6]"
    by code_simp
  show ?thesis
    unfolding salesTrend_fixed_zone [of 0 1700000000000 clutch_sales] u
    by (simp add: clutch_sales_def sold_def isoDate_def Day_def msPerDay_def)
qed

text \<open>The dates of the trend, in any zone.\<close>

lemma trend_dates:
  "map trend_date (salesTrend z today sales) =
     map (\<lambda>k. isoDate (setDate z today (getDate z today - (6 - int k)))) [0..<7]"
proof -
  have "salesTrend z today sales =
      map (\<lambda>k. trend_point_at z today (salesData_of sales) (int 6 - int k)) [0..<Suc 6]"
    unfolding salesTrend_def by (rule trend_loop_eq)
  then show ?thesis
    by (simp add: trend_point_at_def Let_def comp_def)
qed

lemma new_york_dates:
  "map (\<lambda>k. isoDate (setDate new_york_2023 1699317000000
       (getDate new_york_2023 1699317000000 - (6 - int k)))) [0..<7] =
     [19661, 19662, 19663, 19664, 19665, 19667, 19668]"
  by code_simp

lemma new_york_days:
  "isoDate 1699317000000 = 19668" "isoDate 1699185600000 = 19666"
  "getDate new_york_2023 1699317000000 = 6"
  by code_simp+

lemma new_york_sales:
  "map trend_sales (salesTrend new_york_2023 1699317000000 [sold ''Clutch'' 1 10 1699185600000]) =
     [0, 0, 0, 0, 0, 0, 0]"
  by code_simp

text \<open>
  C7. On a host in the zone \<^verbatim>\<open>America/New_York\<close>, at 2023-11-07 00:30 UTC (day number
  19668; the local date is 6 November, 19:30), the dates of the seven points of the
  sales trend are, whatever the ledger, 31 October, 1, 2, 3 and 4 November, and then 6
  and 7 November: 5 November (day number 19666), the day the clocks were set back, is
  not among them, and a sale made at noon UTC of that day is in none of the points.
\<close>

theorem salesTrend_skips_a_day:
  "map trend_date (salesTrend new_york_2023 1699317000000 sales) =
     [19661, 19662, 19663, 19664, 19665, 19667, 19668] \<and>
   isoDate 1699317000000 = 19668 \<and>
   getDate new_york_2023 1699317000000 = 6 \<and>
   isoDate 1699185600000 = 19666 \<and>
   map trend_sales (salesTrend new_york_2023 1699317000000 [sold ''Clutch'' 1 10 1699185600000]) =
     [0, 0, 0, 0, 0, 0, 0]"
  using new_york_dates new_york_days new_york_sales
  by (simp only: trend_dates simp_thms)

theorem salesTrend_skips_a_day_witness:
  "map trend_date (salesTrend new_york_2023 1699317000000 []) \<noteq>
     map (\<lambda>k. isoDate 1699317000000 - 6 + int k) [0..<7]"
proof -
  have u: "[0..<7] = [0, 1, 2, 3, 4, 5, 6]"
    by code_simp
  show ?thesis
    using salesTrend_skips_a_day [of "[]"] unfolding u by simp
qed

subsection \<open>Lists\<close>









subsection \<open>The object\<close>


lemma keys_obj_set:
  "map fst (obj_set obj k v) = (if k \<in> set (map fst obj) then map fst obj else map fst obj @ [k])"
  by (induction obj) (fastforce simp: image_iff)+

lemma distinct_obj_set: "distinct (map fst obj) \<Longrightarrow> distinct (map fst (obj_set obj k v))"
  by (simp add: keys_obj_set)

lemma distinct_count_sale: "distinct (map fst obj) \<Longrightarrow> distinct (map fst (count_sale obj s))"
  by (simp add: count_sale_def distinct_obj_set)

lemma distinct_foldl_count:
  "distinct (map fst obj) \<Longrightarrow> distinct (map fst (foldl count_sale obj xs))"
  by (induction xs arbitrary: obj) (simp_all add: distinct_count_sale)


lemma or_zero_simps [simp]: "or_zero None = 0" "or_zero (Some n) = n"
  by (simp_all add: or_zero_def)





lemma set_key_order: "set (key_order ks) = set ks"
  by (auto simp: key_order_def)



subsection \<open>Top selling products\<close>



lemma set_sold_names:
  "set (sold_names sales) = (\<lambda>s. name_key (sale_name s)) ` {s \<in> set sales. type s = Deduct}"
  by (auto simp: sold_names_def salesData_of_def)















subsection \<open>Sales analytics\<close>

lemma sum_list_insort_key:
  "sum_list (map f (insort_key g x xs)) = f x + sum_list (map f xs)"
  for f :: "'a \<Rightarrow> 'b::comm_monoid_add"
  by (induction xs) (simp_all add: add.left_commute)

lemma sum_list_sort_key:
  "sum_list (map f (sort_key g xs)) = sum_list (map f xs)"
  for f :: "'a \<Rightarrow> 'b::comm_monoid_add"
  by (induction xs) (simp_all add: sum_list_insort_key)

lemma sort_key_Nil_iff: "sort_key g xs = [] \<longleftrightarrow> xs = []"
  by (metis length_0_conv length_sort)

lemma bucket_of_sort_key: "bucket_of (filter P (sort_key g xs)) = bucket_of (filter P xs)"
  by (simp add: bucket_of_def filter_sort sum_list_sort_key sort_key_Nil_iff)

lemma foldl_group_sale:
  "foldl (group_sale z p) grouped xs k =
     (if filter (\<lambda>s. sale_key z p s = k) xs = [] then grouped k
      else Some
        \<lparr>bucket_sales = (case grouped k of None \<Rightarrow> 0 | Some b \<Rightarrow> bucket_sales b)
           + sum_list (map quantity (filter (\<lambda>s. sale_key z p s = k) xs)),
         bucket_revenue = (case grouped k of None \<Rightarrow> 0 | Some b \<Rightarrow> bucket_revenue b)
           + sum_list (map total (filter (\<lambda>s. sale_key z p s = k) xs))\<rparr>)"
proof (induction xs arbitrary: grouped)
  case Nil
  show ?case by simp
next
  case (Cons x xs)
  show ?case
    unfolding foldl_Cons Cons.IH
    by (cases "grouped k") (auto simp: group_sale_def Let_def algebra_simps)
qed

lemma foldl_group_sale_empty:
  "foldl (group_sale z p) Map.empty xs k = bucket_of (filter (\<lambda>s. sale_key z p s = k) xs)"
  by (simp add: foldl_group_sale bucket_of_def)

lemma salesAnalytics_data:
  "data (salesAnalytics z qp now entries) k =
     bucket_of (filter (\<lambda>s. type s = Deduct
         \<and> startDate (salesAnalytics z qp now entries) \<le> date s
         \<and> sale_key z (period (salesAnalytics z qp now entries)) s = k) entries)"
proof -
  define p where "p = (case qp of None \<Rightarrow> ''month'' | Some q \<Rightarrow> q)"
  define start where "start = start_date z p now"
  have "data (salesAnalytics z qp now entries) k =
      bucket_of (filter (\<lambda>s. sale_key z p s = k)
        (sort_key date (filter (\<lambda>s. start \<le> date s \<and> type s = Deduct) entries)))"
    by (simp add: salesAnalytics_def Let_def p_def start_def foldl_group_sale_empty)
  also have "\<dots> = bucket_of (filter (\<lambda>s. sale_key z p s = k)
        (filter (\<lambda>s. start \<le> date s \<and> type s = Deduct) entries))"
    by (rule bucket_of_sort_key)
  also have "filter (\<lambda>s. sale_key z p s = k)
        (filter (\<lambda>s. start \<le> date s \<and> type s = Deduct) entries) =
      filter (\<lambda>s. type s = Deduct \<and> start \<le> date s \<and> sale_key z p s = k) entries"
    by (simp add: conj_ac)
  finally show ?thesis
    by (simp add: salesAnalytics_def Let_def p_def start_def)
qed

lemma ceiling_sevenths: "\<lceil>rat_of_int d / 7\<rceil> = (d + 6) div 7"
proof -
  have "\<lceil>rat_of_int d / 7\<rceil> = \<lceil>rat_of_int d / rat_of_int 7\<rceil>" by simp
  also have "\<dots> = - (- d div 7)" by (rule ceiling_divide_eq_div)
  also have "\<dots> = (d + 6) div 7" by presburger
  finally show ?thesis .
qed

lemma sale_key_cases:
  "sale_key z ''week'' s = DayKey (isoDate (date s))"
  "sale_key z ''month'' s = WeekKey ((getDate z (date s) + 6) div 7)"
  "sale_key z ''year'' s = MonthKey (getMonth z (date s))"
  by (simp_all add: sale_key_def ceiling_sevenths)

lemma salesAnalytics_fields:
  "period (salesAnalytics z qp now entries) = (case qp of None \<Rightarrow> ''month'' | Some q \<Rightarrow> q)"
  "endDate (salesAnalytics z qp now entries) = now"
  "startDate (salesAnalytics z qp now entries) =
     start_date z (case qp of None \<Rightarrow> ''month'' | Some q \<Rightarrow> q) now"
  by (simp_all add: salesAnalytics_def Let_def)

lemma start_date_cases:
  "start_date z ''week'' now = setDate z now (getDate z now - 7)"
  "start_date z ''month'' now = setMonth z now (getMonth z now - 1)"
  "start_date z ''year'' now = setFullYear z now (getFullYear z now - 1)"
  by (simp_all add: start_date_def)

text \<open>
  C9, as the route has it. For a period that is absent (read as \<^verbatim>\<open>month\<close>) or one of
  \<^verbatim>\<open>week\<close>, \<^verbatim>\<open>month\<close>, \<^verbatim>\<open>year\<close>: the reply names the period and ends now. Its start date
  is now with the day of the month set seven back, the month set one back, or the year
  set one back, by the setters of \<^verbatim>\<open>Date\<close>. Where the zone of the host has no clock
  changes, the start date is, for \<^verbatim>\<open>week\<close>, now less seven days; for \<^verbatim>\<open>month\<close> and
  for \<^verbatim>\<open>year\<close>, it is at the same local time of day as now, and on the same day of the
  month of the previous month (the same month of the previous year) whenever that day
  is the 28th or earlier. In every zone, the data maps a key to the bucket of the
  entries of type \<^verbatim>\<open>deduct\<close>, dated at or after the start date, that have this key:
  their summed quantity and summed total, and no bucket when there is no such entry.
  The key of an entry is its UTC calendar day for \<^verbatim>\<open>week\<close>; for \<^verbatim>\<open>month\<close> it is
  \<^verbatim>\<open>Week n\<close> with \<open>n\<close> the local day of the month divided by 7 and rounded up (days 1 to
  7 are week 1, days 8 to 14 week 2, and so on); for \<^verbatim>\<open>year\<close> it is the local month.
\<close>

theorem salesAnalytics_buckets:
  assumes "qp = None \<or> qp = Some ''week'' \<or> qp = Some ''month'' \<or> qp = Some ''year''"
  shows
    "let a = salesAnalytics z qp now entries;
         p = (case qp of None \<Rightarrow> ''month'' | Some q \<Rightarrow> q);
         key = (\<lambda>s. if p = ''week'' then DayKey (isoDate (date s))
                     else if p = ''month'' then WeekKey ((getDate z (date s) + 6) div 7)
                     else MonthKey (getMonth z (date s)))
     in period a = p \<and> endDate a = now \<and>
        (p = ''week'' \<longrightarrow> startDate a = setDate z now (getDate z now - 7)) \<and>
        (p = ''month'' \<longrightarrow> startDate a = setMonth z now (getMonth z now - 1)) \<and>
        (p = ''year'' \<longrightarrow> startDate a = setFullYear z now (getFullYear z now - 1)) \<and>
        (\<forall>c. z = fixed_zone c \<longrightarrow>
           (p = ''week'' \<longrightarrow> startDate a = now - 7 * msPerDay) \<and>
           (p = ''month'' \<or> p = ''year'' \<longrightarrow>
              TimeWithinDay (LocalTime z (startDate a)) = TimeWithinDay (LocalTime z now)) \<and>
           (p = ''month'' \<and> getDate z now \<le> 28 \<longrightarrow>
              getDate z (startDate a) = getDate z now \<and>
              getMonth z (startDate a) = (getMonth z now - 1) mod 12 \<and>
              getFullYear z (startDate a) = getFullYear z now + (getMonth z now - 1) div 12) \<and>
           (p = ''year'' \<and> getDate z now \<le> 28 \<longrightarrow>
              getDate z (startDate a) = getDate z now \<and>
              getMonth z (startDate a) = getMonth z now \<and>
              getFullYear z (startDate a) = getFullYear z now - 1)) \<and>
        (\<forall>k. data a k =
           bucket_of (filter (\<lambda>s. type s = Deduct \<and> startDate a \<le> date s \<and> key s = k) entries))"
proof -
  define p where "p = (case qp of None \<Rightarrow> ''month'' | Some q \<Rightarrow> q)"
  define a where "a = salesAnalytics z qp now entries"
  have pa: "period a = p" and ea: "endDate a = now" and sa: "startDate a = start_date z p now"
    by (simp_all add: a_def p_def salesAnalytics_fields)
  from assms have p: "p = ''week'' \<or> p = ''month'' \<or> p = ''year''"
    by (auto simp: p_def)
  have key: "sale_key z p s =
      (if p = ''week'' then DayKey (isoDate (date s))
       else if p = ''month'' then WeekKey ((getDate z (date s) + 6) div 7)
       else MonthKey (getMonth z (date s)))" for s
    using p by (auto simp: sale_key_cases)
  have d: "data a k =
      bucket_of (filter (\<lambda>s. type s = Deduct \<and> startDate a \<le> date s \<and>
        (if p = ''week'' then DayKey (isoDate (date s))
         else if p = ''month'' then WeekKey ((getDate z (date s) + 6) div 7)
         else MonthKey (getMonth z (date s))) = k) entries)" for k
    using salesAnalytics_data [of z qp now entries k]
    by (simp only: a_def [symmetric] pa key)
  have w1: "p = ''week'' \<Longrightarrow> startDate a = setDate z now (getDate z now - 7)"
    by (simp add: sa start_date_cases)
  have m1: "p = ''month'' \<Longrightarrow> startDate a = setMonth z now (getMonth z now - 1)"
    by (simp add: sa start_date_cases)
  have y1: "p = ''year'' \<Longrightarrow> startDate a = setFullYear z now (getFullYear z now - 1)"
    by (simp add: sa start_date_cases)
  have w: "z = fixed_zone c \<Longrightarrow> p = ''week'' \<Longrightarrow> startDate a = now - 7 * msPerDay" for c
    by (simp add: w1 setDate_getDate)
  have t2: "z = fixed_zone c \<Longrightarrow> p = ''month'' \<or> p = ''year'' \<Longrightarrow>
      TimeWithinDay (LocalTime z (startDate a)) = TimeWithinDay (LocalTime z now)" for c
    using m1 y1 setMonth_local [of c now "getMonth z now - 1"]
      setFullYear_local [of c now "getFullYear z now - 1"]
    by auto
  have m3: "z = fixed_zone c \<Longrightarrow> p = ''month'' \<and> getDate z now \<le> 28 \<Longrightarrow>
      getDate z (startDate a) = getDate z now \<and>
      getMonth z (startDate a) = (getMonth z now - 1) mod 12 \<and>
      getFullYear z (startDate a) = getFullYear z now + (getMonth z now - 1) div 12" for c
    using setMonth_fields [of c now "getMonth z now - 1"] by (simp add: m1)
  have y3: "z = fixed_zone c \<Longrightarrow> p = ''year'' \<and> getDate z now \<le> 28 \<Longrightarrow>
      getDate z (startDate a) = getDate z now \<and>
      getMonth z (startDate a) = getMonth z now \<and>
      getFullYear z (startDate a) = getFullYear z now - 1" for c
    using setFullYear_fields [of c now "getFullYear z now - 1"] by (simp add: y1)
  show ?thesis
    unfolding Let_def a_def [symmetric] p_def [symmetric]
  proof (intro conjI impI allI)
    show "period a = p" by (rule pa)
    show "endDate a = now" by (rule ea)
    show "startDate a = setDate z now (getDate z now - 7)" if "p = ''week''"
      using that by (rule w1)
    show "startDate a = setMonth z now (getMonth z now - 1)" if "p = ''month''"
      using that by (rule m1)
    show "startDate a = setFullYear z now (getFullYear z now - 1)" if "p = ''year''"
      using that by (rule y1)
    show "startDate a = now - 7 * msPerDay" if "z = fixed_zone c" and "p = ''week''" for c
      using that by (rule w)
    show "TimeWithinDay (LocalTime z (startDate a)) = TimeWithinDay (LocalTime z now)"
      if "z = fixed_zone c" and "p = ''month'' \<or> p = ''year''" for c
      using that by (rule t2)
    show "getDate z (startDate a) = getDate z now"
      if "z = fixed_zone c" and "p = ''month'' \<and> getDate z now \<le> 28" for c
      using m3 [OF that] by simp
    show "getMonth z (startDate a) = (getMonth z now - 1) mod 12"
      if "z = fixed_zone c" and "p = ''month'' \<and> getDate z now \<le> 28" for c
      using m3 [OF that] by simp
    show "getFullYear z (startDate a) = getFullYear z now + (getMonth z now - 1) div 12"
      if "z = fixed_zone c" and "p = ''month'' \<and> getDate z now \<le> 28" for c
      using m3 [OF that] by simp
    show "getDate z (startDate a) = getDate z now"
      if "z = fixed_zone c" and "p = ''year'' \<and> getDate z now \<le> 28" for c
      using y3 [OF that] by simp
    show "getMonth z (startDate a) = getMonth z now"
      if "z = fixed_zone c" and "p = ''year'' \<and> getDate z now \<le> 28" for c
      using y3 [OF that] by simp
    show "getFullYear z (startDate a) = getFullYear z now - 1"
      if "z = fixed_zone c" and "p = ''year'' \<and> getDate z now \<le> 28" for c
      using y3 [OF that] by simp
    show "data a k =
      bucket_of (filter (\<lambda>s. type s = Deduct \<and> startDate a \<le> date s \<and>
        (if p = ''week'' then DayKey (isoDate (date s))
         else if p = ''month'' then WeekKey ((getDate z (date s) + 6) div 7)
         else MonthKey (getMonth z (date s))) = k) entries)" for k
      by (rule d)
  qed
qed

text \<open>
  The example sales on 14 November 2023 with no period given, in the zone of UTC: the
  start date is 14 October, and both sales fall in \<^verbatim>\<open>Week 2\<close>.
\<close>

lemma example_now:
  "getFullYear (fixed_zone 0) 1700000000000 = 2023" "getMonth (fixed_zone 0) 1700000000000 = 10"
  "getDate (fixed_zone 0) 1700000000000 = 14"
  by code_simp+

lemma example_start:
  "setMonth (fixed_zone 0) 1700000000000 (getMonth (fixed_zone 0) 1700000000000 - 1) =
     1697321600000"
  by code_simp

lemma example_start_fields:
  "getFullYear (fixed_zone 0) 1697321600000 = 2023" "getMonth (fixed_zone 0) 1697321600000 = 9"
  "getDate (fixed_zone 0) 1697321600000 = 14"
  by code_simp+

lemma example_buckets:
  "bucket_of (filter (\<lambda>s. type s = Deduct \<and> 1697321600000 \<le> date s \<and>
      WeekKey ((getDate (fixed_zone 0) (date s) + 6) div 7) = WeekKey 2) clutch_sales) =
     Some \<lparr>bucket_sales = 7, bucket_revenue = 70\<rparr>"
  "bucket_of (filter (\<lambda>s. type s = Deduct \<and> 1697321600000 \<le> date s \<and>
      WeekKey ((getDate (fixed_zone 0) (date s) + 6) div 7) = WeekKey 1) clutch_sales) = None"
  by code_simp+

theorem salesAnalytics_buckets_witness:
  "period (salesAnalytics (fixed_zone 0) None 1700000000000 clutch_sales) = ''month'' \<and>
   endDate (salesAnalytics (fixed_zone 0) None 1700000000000 clutch_sales) = 1700000000000 \<and>
   startDate (salesAnalytics (fixed_zone 0) None 1700000000000 clutch_sales) = 1697321600000 \<and>
   getDate (fixed_zone 0) 1700000000000 = 14 \<and>
   getMonth (fixed_zone 0)
     (startDate (salesAnalytics (fixed_zone 0) None 1700000000000 clutch_sales)) = 9 \<and>
   data (salesAnalytics (fixed_zone 0) None 1700000000000 clutch_sales) (WeekKey 2) =
     Some \<lparr>bucket_sales = 7, bucket_revenue = 70\<rparr> \<and>
   data (salesAnalytics (fixed_zone 0) None 1700000000000 clutch_sales) (WeekKey 1) = None"
proof -
  have h: "(None :: string option) = None \<or> None = Some ''week'' \<or> None = Some ''month''
      \<or> None = Some ''year''"
    by simp
  note t = salesAnalytics_buckets [OF h, of "fixed_zone 0" 1700000000000 clutch_sales,
      unfolded Let_def]
  from t have p: "period (salesAnalytics (fixed_zone 0) None 1700000000000 clutch_sales) = ''month''"
    and e: "endDate (salesAnalytics (fixed_zone 0) None 1700000000000 clutch_sales) = 1700000000000"
    by simp_all
  from t have s:
    "startDate (salesAnalytics (fixed_zone 0) None 1700000000000 clutch_sales) = 1697321600000"
    by (simp add: example_start)
  from t have d: "data (salesAnalytics (fixed_zone 0) None 1700000000000 clutch_sales) k =
      bucket_of (filter (\<lambda>s. type s = Deduct \<and> 1697321600000 \<le> date s \<and>
        WeekKey ((getDate (fixed_zone 0) (date s) + 6) div 7) = k) clutch_sales)" for k
    by (simp add: s)
  show ?thesis
    using example_buckets by (simp add: p e s d example_now example_start_fields)
qed

text \<open>
  Tuesday 7 and Wednesday 8 November 2023 are days of one ISO week and of one month,
  and the sales of these two days are put in two buckets, \<^verbatim>\<open>Week 1\<close> and \<^verbatim>\<open>Week 2\<close>.
\<close>

theorem salesAnalytics_week_counterexample:
  "iso_week_index 1699358400000 = iso_week_index 1699444800000 \<and>
   getMonth (fixed_zone 0) 1699358400000 = getMonth (fixed_zone 0) 1699444800000 \<and>
   getFullYear (fixed_zone 0) 1699358400000 = getFullYear (fixed_zone 0) 1699444800000 \<and>
   data (salesAnalytics (fixed_zone 0) (Some ''month'') 1700000000000 week_sales) (WeekKey 1) =
     Some \<lparr>bucket_sales = 1, bucket_revenue = 10\<rparr> \<and>
   data (salesAnalytics (fixed_zone 0) (Some ''month'') 1700000000000 week_sales) (WeekKey 2) =
     Some \<lparr>bucket_sales = 2, bucket_revenue = 20\<rparr>"
proof -
  have a: "iso_week_index 1699358400000 = iso_week_index 1699444800000"
    by code_simp
  have b: "getMonth (fixed_zone 0) 1699358400000 = getMonth (fixed_zone 0) 1699444800000"
    "getFullYear (fixed_zone 0) 1699358400000 = getFullYear (fixed_zone 0) 1699444800000"
    by code_simp+
  have s: "startDate (salesAnalytics (fixed_zone 0) (Some ''month'') 1700000000000 week_sales) =
      1697321600000"
    by (simp add: salesAnalytics_fields start_date_cases example_start)
  have p: "period (salesAnalytics (fixed_zone 0) (Some ''month'') 1700000000000 week_sales) =
      ''month''"
    by (simp add: salesAnalytics_fields)
  have c: "bucket_of (filter (\<lambda>s. type s = Deduct \<and> 1697321600000 \<le> date s \<and>
        sale_key (fixed_zone 0) ''month'' s = WeekKey 1) week_sales) =
      Some \<lparr>bucket_sales = 1, bucket_revenue = 10\<rparr>"
    "bucket_of (filter (\<lambda>s. type s = Deduct \<and> 1697321600000 \<le> date s \<and>
        sale_key (fixed_zone 0) ''month'' s = WeekKey 2) week_sales) =
      Some \<lparr>bucket_sales = 2, bucket_revenue = 20\<rparr>"
    by code_simp+
  show ?thesis
    using a b c by (simp add: salesAnalytics_data s p)
qed

text \<open>
  Across a clock change the start of the week view is not seven days back: in the zone
  \<^verbatim>\<open>America/New_York\<close> at 2023-11-07 00:30 UTC it is seven days and one hour back.
\<close>

lemma start_date_new_york:
  "start_date new_york_2023 ''week'' 1699317000000 = 1699317000000 - 7 * msPerDay - 3600000"
  by code_simp

end
